theory Spec2Isabelle
  imports Complex_Main "HOL-Library.AList"
begin

section \<open>Strings of code points\<close>

text \<open>
  A Python \<open>str\<close> is a sequence of Unicode code points and \<open>len\<close> counts code points,
  so a string is modelled as a list of code point numbers.  \<open>ascii\<close> writes an ASCII
  literal of the source.
\<close>

type_synonym ustr = "nat list"

definition ascii :: "string \<Rightarrow> ustr" where
  "ascii s = map of_char s"

definition startswith :: "ustr \<Rightarrow> ustr \<Rightarrow> bool" where
  "startswith s p \<longleftrightarrow> take (length p) s = p"

definition endswith :: "ustr \<Rightarrow> ustr \<Rightarrow> bool" where
  "endswith s p \<longleftrightarrow> length p \<le> length s \<and> drop (length s - length p) s = p"

text \<open>
  \<open>str.lower\<close>.  The ASCII capitals go to their small letters.  Of the code points from
  U+0080 on, exactly two have a lowercase form that is not again a single code point of
  the same range: U+0130 becomes the two code points U+0069 U+0307, and U+212A (the Kelvin
  sign) becomes the ASCII letter k.  Every other entry of the Unicode table maps a code
  point of U+0080..U+FFFF into U+0080..U+FFFF and one above U+FFFF to one above U+FFFF; the
  validation below only looks at these ranges, and those entries are modelled as the
  identity.
\<close>

definition lower_cp :: "nat \<Rightarrow> ustr" where
  "lower_cp c =
     (if 65 \<le> c \<and> c \<le> 90 then [c + 32]
      else if c = 0x130 then [0x69, 0x307]
      else if c = 0x212A then [0x6B]
      else [c])"

definition lower :: "ustr \<Rightarrow> ustr" where
  "lower s = concat (map lower_cp s)"

section \<open>Regular expressions\<close>

text \<open>
  The fragment of Python's \<open>re\<close> syntax that the source uses (character classes,
  concatenation, \<open>?\<close> and \<open>*\<close>), closed under the alternation that derivatives need.
  \<open>matches r s\<close> holds when the whole of \<open>s\<close> is a word of \<open>r\<close>.
\<close>

datatype regex =
    Never
  | Empty
  | Class "nat \<Rightarrow> bool"
  | Cat regex regex
  | Alt regex regex
  | Opt regex
  | Rep regex

fun nullable :: "regex \<Rightarrow> bool" where
  "nullable Never = False"
| "nullable Empty = True"
| "nullable (Class p) = False"
| "nullable (Cat r s) = (nullable r \<and> nullable s)"
| "nullable (Alt r s) = (nullable r \<or> nullable s)"
| "nullable (Opt r) = True"
| "nullable (Rep r) = True"

fun deriv :: "nat \<Rightarrow> regex \<Rightarrow> regex" where
  "deriv c Never = Never"
| "deriv c Empty = Never"
| "deriv c (Class p) = (if p c then Empty else Never)"
| "deriv c (Cat r s) =
     (if nullable r then Alt (Cat (deriv c r) s) (deriv c s) else Cat (deriv c r) s)"
| "deriv c (Alt r s) = Alt (deriv c r) (deriv c s)"
| "deriv c (Opt r) = deriv c r"
| "deriv c (Rep r) = Cat (deriv c r) (Rep r)"

fun matches :: "regex \<Rightarrow> ustr \<Rightarrow> bool" where
  "matches r [] = nullable r"
| "matches r (c # cs) = matches (deriv c r) cs"

text \<open>
  \<open>pattern.match(s)\<close> for a pattern of the form \<open>^r$\<close> compiled without flags: the
  match starts at the beginning of \<open>s\<close>, and \<open>$\<close> stands at the end of \<open>s\<close> or just
  before a line feed that is the last code point of \<open>s\<close>.
\<close>

definition match_anchored :: "regex \<Rightarrow> ustr \<Rightarrow> bool" where
  "match_anchored r s \<longleftrightarrow>
     matches r s \<or> (s \<noteq> [] \<and> last s = 10 \<and> matches r (butlast s))"

section \<open>Agent names and URIs (core/types.py)\<close>

text \<open>The character class of a-z, 0-9 and U+0080 to U+FFFF, and the same class with the hyphen added.\<close>

definition name_edge_char :: "nat \<Rightarrow> bool" where
  "name_edge_char c \<longleftrightarrow>
     (97 \<le> c \<and> c \<le> 122) \<or> (48 \<le> c \<and> c \<le> 57) \<or> (0x80 \<le> c \<and> c \<le> 0xFFFF)"

definition name_inner_char :: "nat \<Rightarrow> bool" where
  "name_inner_char c \<longleftrightarrow> name_edge_char c \<or> c = 45"

definition AGENT_NAME_RE :: regex where
  "AGENT_NAME_RE =
     Cat (Class name_edge_char)
         (Opt (Cat (Rep (Class name_inner_char)) (Class name_edge_char)))"

definition parse_agent_uri :: "ustr \<Rightarrow> ustr option" where
  "parse_agent_uri uri =
     (if \<not> startswith uri (ascii ''agent://'') then None
      else let name = lower (drop 8 uri) in
        if length name < 2 \<or> length name > 50 then None
        else if startswith name (ascii ''-'') \<or> endswith name (ascii ''-'') then None
        else if \<not> match_anchored AGENT_NAME_RE name then None
        else Some name)"

definition is_valid_agent_uri :: "ustr \<Rightarrow> bool" where
  "is_valid_agent_uri uri \<longleftrightarrow> parse_agent_uri uri \<noteq> None"

definition validate_agent_name :: "ustr \<Rightarrow> bool" where
  "validate_agent_name name =
     (if length name < 2 \<or> length name > 50 then False
      else if startswith name (ascii ''-'') \<or> endswith name (ascii ''-'') then False
      else match_anchored AGENT_NAME_RE (lower name))"

definition to_agent_uri :: "ustr \<Rightarrow> ustr" where
  "to_agent_uri name = ascii ''agent://'' @ lower name"

text \<open>
  The words of a regular expression, for the proofs: \<open>matches\<close> decides membership in
  \<open>lang\<close>.
\<close>

inductive_set star :: "ustr set \<Rightarrow> ustr set" for A :: "ustr set" where
  star_nil: "[] \<in> star A"
| star_app: "u \<in> A \<Longrightarrow> v \<in> star A \<Longrightarrow> u @ v \<in> star A"

fun lang :: "regex \<Rightarrow> ustr set" where
  "lang Never = {}"
| "lang Empty = {[]}"
| "lang (Class p) = {[c] | c. p c}"
| "lang (Cat r s) = {u @ v | u v. u \<in> lang r \<and> v \<in> lang s}"
| "lang (Alt r s) = lang r \<union> lang s"
| "lang (Opt r) = insert [] (lang r)"
| "lang (Rep r) = star (lang r)"

text \<open>The words of \<open>AGENT_NAME_RE\<close>, said without the expression.\<close>

definition name_body :: "ustr \<Rightarrow> bool" where
  "name_body w \<longleftrightarrow>
     w \<noteq> [] \<and> name_edge_char (hd w) \<and> name_edge_char (last w) \<and> list_all name_inner_char w"

text \<open>
  The grammar of an agent name in the words of the specification, to compare
  \<open>validate_agent_name\<close> with: after lowercasing, length 2 to 50, every character a
  lowercase ASCII letter or digit, a hyphen or a code point from U+0080 on, and no
  hyphen at either end.
\<close>

definition spec_agent_name :: "ustr \<Rightarrow> bool" where
  "spec_agent_name s \<longleftrightarrow>
     (let t = lower s in
        2 \<le> length t \<and> length t \<le> 50 \<and>
        list_all (\<lambda>c. (97 \<le> c \<and> c \<le> 122) \<or> (48 \<le> c \<and> c \<le> 57) \<or> c = 45 \<or> 0x80 \<le> c) t \<and>
        \<not> startswith t (ascii ''-'') \<and> \<not> endswith t (ascii ''-''))"

section \<open>Python values and exceptions\<close>

text \<open>
  The values that \<open>Any\<close> ranges over in the source: what a JSON document parses to, which
  is also what tool parameters and results are made of.  A \<open>dict\<close> is an association
  list in insertion order; \<open>d[k] = v\<close> is \<open>AList.update\<close> and \<open>d.get(k)\<close> is \<open>map_of\<close>.
  Floats are modelled as real numbers: rounding, infinities and NaN are left out.
\<close>

datatype pyval =
    PNone
  | PBool bool
  | PInt int
  | PFloat real
  | PStr ustr
  | PList "pyval list"
  | PDict "(ustr \<times> pyval) list"

definition dict_get :: "(ustr \<times> 'v) list \<Rightarrow> ustr \<Rightarrow> 'v \<Rightarrow> 'v" where
  "dict_get d k dflt = (case map_of d k of None \<Rightarrow> dflt | Some v \<Rightarrow> v)"

fun truthy :: "pyval \<Rightarrow> bool" where
  "truthy PNone = False"
| "truthy (PBool b) = b"
| "truthy (PInt i) = (i \<noteq> 0)"
| "truthy (PFloat x) = (x \<noteq> 0)"
| "truthy (PStr s) = (s \<noteq> [])"
| "truthy (PList xs) = (xs \<noteq> [])"
| "truthy (PDict d) = (d \<noteq> [])"

definition py_or :: "pyval \<Rightarrow> pyval \<Rightarrow> pyval" where
  "py_or a b = (if truthy a then a else b)"

fun type_name :: "pyval \<Rightarrow> ustr" where
  "type_name PNone = ascii ''NoneType''"
| "type_name (PBool b) = ascii ''bool''"
| "type_name (PInt i) = ascii ''int''"
| "type_name (PFloat x) = ascii ''float''"
| "type_name (PStr s) = ascii ''str''"
| "type_name (PList xs) = ascii ''list''"
| "type_name (PDict d) = ascii ''dict''"

text \<open>Decimal digits of a number, for the status code inside a message.\<close>

fun digits :: "nat \<Rightarrow> ustr" where
  "digits n = (if n < 10 then [48 + n] else digits (n div 10) @ [48 + n mod 10])"

declare digits.simps [simp del]

definition str_int :: "int \<Rightarrow> ustr" where
  "str_int i = (if i < 0 then 45 # digits (nat (- i)) else digits (nat i))"

datatype DNSErrorCode = NOT_FOUND | INVALID_NAME | TIMEOUT | SERVER_ERROR | NETWORK_ERROR

fun code_value :: "DNSErrorCode \<Rightarrow> ustr" where
  "code_value NOT_FOUND = ascii ''NOT_FOUND''"
| "code_value INVALID_NAME = ascii ''INVALID_NAME''"
| "code_value TIMEOUT = ascii ''TIMEOUT''"
| "code_value SERVER_ERROR = ascii ''SERVER_ERROR''"
| "code_value NETWORK_ERROR = ascii ''NETWORK_ERROR''"

text \<open>
  A raised exception, by the classes that the \<open>except\<close> clauses of the source tell
  apart.  \<open>DNSError\<close> is the class of resolver.py with its code and the message it was
  built from; \<open>TimeoutException\<close> and \<open>ConnectError\<close> are those of httpx;
  \<open>OtherException\<close> is any other class derived from \<open>Exception\<close> (ValueError,
  json.JSONDecodeError, ...); \<open>BaseExceptionOnly\<close> is a class derived from
  \<open>BaseException\<close> and not from \<open>Exception\<close> (KeyboardInterrupt, SystemExit,
  asyncio.CancelledError), which \<open>except Exception\<close> does not catch.
\<close>

datatype pyexc =
    TypeError ustr
  | AttributeError ustr
  | TimeoutException ustr
  | ConnectError ustr
  | DNSError DNSErrorCode ustr
  | OtherException ustr
  | BaseExceptionOnly ustr

fun is_Exception :: "pyexc \<Rightarrow> bool" where
  "is_Exception (BaseExceptionOnly m) = False"
| "is_Exception e = True"

fun is_TypeError :: "pyexc \<Rightarrow> bool" where
  "is_TypeError (TypeError m) = True"
| "is_TypeError e = False"

text \<open>\<open>str(e)\<close>; \<open>DNSError.__init__\<close> passes \<open>[code] message\<close> to \<open>Exception\<close>.\<close>

fun exc_str :: "pyexc \<Rightarrow> ustr" where
  "exc_str (TypeError m) = m"
| "exc_str (AttributeError m) = m"
| "exc_str (TimeoutException m) = m"
| "exc_str (ConnectError m) = m"
| "exc_str (DNSError c m) = ascii ''['' @ code_value c @ ascii ''] '' @ m"
| "exc_str (OtherException m) = m"
| "exc_str (BaseExceptionOnly m) = m"

text \<open>The typed errors of the resolver: a \<open>DNSError\<close>, which always carries one of the five codes.\<close>

fun dns_code :: "pyexc \<Rightarrow> DNSErrorCode option" where
  "dns_code (DNSError c m) = Some c"
| "dns_code e = None"

section \<open>Tool registry (tools/registry.py)\<close>

text \<open>
  Field names carry a short prefix of their class, since several classes of the source
  have a \<open>name\<close>, a \<open>description\<close> or an \<open>id\<close>.
\<close>

record ToolDefinition =
  td_name :: ustr
  td_description :: ustr
  td_input_schema :: pyval
  td_output_schema :: pyval

record ToolContext =
  tc_session_id :: ustr
  tc_agent_name :: ustr
  tc_metadata :: "(ustr \<times> pyval) list"

record ToolInvokeResult =
  success :: bool
  result :: pyval
  error :: "ustr option"

text \<open>
  What \<open>await handler(**params)\<close> comes to once it completes: a value, or an exception.
  A mismatch between \<open>params\<close> and the handler's parameters, and a handler that is not
  awaitable, are \<open>TypeError\<close>s raised by that expression, so they are outcomes of the
  handler here.
\<close>

datatype outcome = Returned pyval | Raised pyexc

type_synonym ToolHandler = "(ustr \<times> pyval) list \<Rightarrow> outcome"

record ToolRegistry =
  tools :: "(ustr \<times> ToolDefinition \<times> ToolHandler) list"

definition register ::
  "ToolRegistry \<Rightarrow> ustr \<Rightarrow> ToolHandler \<Rightarrow> ustr \<Rightarrow> pyval \<Rightarrow> pyval \<Rightarrow> ToolDefinition \<times> ToolRegistry" where
  "register reg name handler description input_schema output_schema =
     (let defn = \<lparr>td_name = name, td_description = description,
                  td_input_schema = input_schema, td_output_schema = output_schema\<rparr>
      in (defn, reg\<lparr>tools := AList.update name (defn, handler) (tools reg)\<rparr>))"

definition unregister :: "ToolRegistry \<Rightarrow> ustr \<Rightarrow> bool \<times> ToolRegistry" where
  "unregister reg name =
     (map_of (tools reg) name \<noteq> None, reg\<lparr>tools := AList.delete name (tools reg)\<rparr>)"

definition get_tool :: "ToolRegistry \<Rightarrow> ustr \<Rightarrow> (ToolDefinition \<times> ToolHandler) option" where
  "get_tool reg name = map_of (tools reg) name"

definition list_tools :: "ToolRegistry \<Rightarrow> ToolDefinition list" where
  "list_tools reg = map (\<lambda>(k, defn, h). defn) (tools reg)"

text \<open>
  \<open>invoke\<close> gives what the call returns (\<open>Inr\<close>) or the exception that leaves it
  (\<open>Inl\<close>), and the registry as the call leaves it; the body never assigns \<open>_tools\<close>.
  Its third parameter, the context, is not passed on to the handler.
\<close>

definition invoke ::
  "ToolRegistry \<Rightarrow> ustr \<Rightarrow> (ustr \<times> pyval) list \<Rightarrow> ToolContext
     \<Rightarrow> (pyexc + ToolInvokeResult) \<times> ToolRegistry" where
  "invoke reg name params context =
     (case map_of (tools reg) name of
        None \<Rightarrow>
          (Inr \<lparr>success = False, result = PNone,
                error = Some (ascii ''Tool not found: '' @ name)\<rparr>, reg)
      | Some (defn, handler) \<Rightarrow>
          (case handler params of
             Returned v \<Rightarrow> (Inr \<lparr>success = True, result = v, error = None\<rparr>, reg)
           | Raised e \<Rightarrow>
               if is_TypeError e then
                 (Inr \<lparr>success = False, result = PNone,
                       error = Some (ascii ''Invalid parameters: '' @ exc_str e)\<rparr>, reg)
               else if is_Exception e then
                 (Inr \<lparr>success = False, result = PNone,
                       error = Some (ascii ''Tool error: '' @ exc_str e)\<rparr>, reg)
               else (Inl e, reg)))"

section \<open>Protocol frames (protocol/types.py)\<close>

datatype MessageType = REQUEST | RESPONSE | EVENT | ERROR

record RequestFrame =
  rq_type :: MessageType
  rq_id :: ustr
  rq_method :: ustr
  rq_params :: "(ustr \<times> pyval) list"
  rq_session_id :: "ustr option"
  rq_timestamp :: real

record ResponseFrame =
  rs_type :: MessageType
  rs_id :: ustr
  rs_request_id :: ustr
  rs_result :: pyval
  rs_session_id :: "ustr option"
  rs_timestamp :: real

record EventFrame =
  ev_type :: MessageType
  ev_id :: ustr
  ev_event :: ustr
  ev_data :: pyval
  ev_session_id :: "ustr option"
  ev_timestamp :: real

record ErrorFrame =
  er_type :: MessageType
  er_id :: ustr
  er_request_id :: ustr
  er_code :: int
  er_message :: ustr
  er_data :: pyval
  er_session_id :: "ustr option"
  er_timestamp :: real

text \<open>
  What \<open>validate_frame\<close> may be handed: an instance of one of the four frame classes,
  or any other object.
\<close>

datatype frame_object =
    IsRequestFrame RequestFrame
  | IsResponseFrame ResponseFrame
  | IsEventFrame EventFrame
  | IsErrorFrame ErrorFrame
  | NotAFrame pyval

fun is_frame :: "frame_object \<Rightarrow> bool" where
  "is_frame (NotAFrame v) = False"
| "is_frame f = True"

fun frame_id :: "frame_object \<Rightarrow> ustr" where
  "frame_id (IsRequestFrame f) = rq_id f"
| "frame_id (IsResponseFrame f) = rs_id f"
| "frame_id (IsEventFrame f) = ev_id f"
| "frame_id (IsErrorFrame f) = er_id f"
| "frame_id (NotAFrame v) = []"

definition validate_frame :: "frame_object \<Rightarrow> bool" where
  "validate_frame frame =
     (if \<not> is_frame frame then False
      else if frame_id frame = [] then False
      else if (case frame of IsRequestFrame f \<Rightarrow> rq_method f = [] | _ \<Rightarrow> False) then False
      else if (case frame of IsResponseFrame f \<Rightarrow> rs_request_id f = [] | _ \<Rightarrow> False) then False
      else if (case frame of IsEventFrame f \<Rightarrow> ev_event f = [] | _ \<Rightarrow> False) then False
      else if (case frame of IsErrorFrame f \<Rightarrow> er_request_id f = [] | _ \<Rightarrow> False) then False
      else True)"

text \<open>
  The four constructors.  The fresh identifier (\<open>generate_id\<close>, a random UUID) and the
  reading of the clock are parameters.
\<close>

definition create_request_frame ::
  "ustr \<Rightarrow> real \<Rightarrow> ustr \<Rightarrow> (ustr \<times> pyval) list \<Rightarrow> ustr option \<Rightarrow> RequestFrame" where
  "create_request_frame new_id now method params session_id =
     \<lparr>rq_type = REQUEST, rq_id = new_id, rq_method = method, rq_params = params,
      rq_session_id = session_id, rq_timestamp = now\<rparr>"

definition create_response_frame ::
  "ustr \<Rightarrow> real \<Rightarrow> ustr \<Rightarrow> pyval \<Rightarrow> ustr option \<Rightarrow> ResponseFrame" where
  "create_response_frame new_id now request_id res session_id =
     \<lparr>rs_type = RESPONSE, rs_id = new_id, rs_request_id = request_id, rs_result = res,
      rs_session_id = session_id, rs_timestamp = now\<rparr>"

definition create_event_frame ::
  "ustr \<Rightarrow> real \<Rightarrow> ustr \<Rightarrow> pyval \<Rightarrow> ustr option \<Rightarrow> EventFrame" where
  "create_event_frame new_id now event data session_id =
     \<lparr>ev_type = EVENT, ev_id = new_id, ev_event = event, ev_data = data,
      ev_session_id = session_id, ev_timestamp = now\<rparr>"

section \<open>Resolver (dns/resolver.py)\<close>

text \<open>
  The dataclasses do not check their field types, and the fields filled from the
  service's reply hold whatever the reply holds, so these fields are Python values.
\<close>

record AgentTool =
  at_name :: pyval
  at_description :: pyval
  at_input_schema :: pyval
  at_output_schema :: pyval

record ResolvedAgent =
  ra_name :: ustr
  ra_endpoint :: pyval
  ra_public_key :: pyval
  ra_tools :: "AgentTool list"
  ra_capabilities :: pyval
  ra_ttl :: pyval
  ra_resolved_at :: real
  ra_metadata :: "(ustr \<times> pyval) list"

record CacheEntry =
  agent :: ResolvedAgent
  expires_at :: real

record DNSResolverConfig =
  server :: ustr
  timeout_ms :: int
  default_ttl_seconds :: int
  use_https :: bool
  port :: int

record DNSResolver =
  config :: DNSResolverConfig
  cache :: "(ustr \<times> CacheEntry) list"
  base_url :: ustr

text \<open>
  The world outside the resolver, for one call of \<open>resolve\<close>.  \<open>http_get url\<close> is what
  the GET request to \<open>url\<close> comes to: an exception of the client, or a response with its
  status code and with what \<open>resp.json()\<close> gives, a value or an exception.  The three
  clock fields are the readings of \<open>time.time()\<close> that the call makes, in order: in the
  cache check, in the construction of \<open>ResolvedAgent\<close> (the default of \<open>resolved_at\<close>),
  and when the cache entry is stored.
\<close>

record Response =
  status_code :: int
  json :: "pyexc + pyval"

record world =
  http_get :: "ustr \<Rightarrow> pyexc + Response"
  at_check :: real
  at_construct :: real
  at_store :: real

text \<open>
  The state that \<open>resolve\<close> works on: the resolver, and the URLs of the GET requests
  issued so far, which is how the network calls are counted.
\<close>

record net =
  resolver :: DNSResolver
  requests :: "ustr list"

text \<open>The first lines of \<open>resolve\<close>: the name that the rest of the body works with.\<close>

definition check_name :: "ustr \<Rightarrow> pyexc + ustr" where
  "check_name name =
     (if \<not> validate_agent_name name
      then Inl (DNSError INVALID_NAME (ascii ''Invalid agent name: '' @ name))
      else Inr name)"

definition target_name :: "ustr \<Rightarrow> pyexc + ustr" where
  "target_name name =
     (if startswith name (ascii ''agent://'') then
        (case parse_agent_uri name of
           None \<Rightarrow> Inl (DNSError INVALID_NAME (ascii ''Invalid URI: '' @ name))
         | Some parsed \<Rightarrow> check_name parsed)
      else check_name name)"

definition lookup_url :: "DNSResolver \<Rightarrow> ustr \<Rightarrow> ustr" where
  "lookup_url r name = base_url r @ ascii ''/dns/lookup/'' @ name"

text \<open>The body of the \<open>try\<close>, then the \<open>except\<close> clauses in their order.\<close>

definition try_body :: "(pyexc + Response) \<Rightarrow> ustr \<Rightarrow> pyexc + pyval" where
  "try_body got name =
     (case got of
        Inl e \<Rightarrow> Inl e
      | Inr resp \<Rightarrow>
          if status_code resp = 404 then
            Inl (DNSError NOT_FOUND (ascii ''Agent not found: '' @ name))
          else if status_code resp \<noteq> 200 then
            Inl (DNSError SERVER_ERROR (ascii ''DNS server error: '' @ str_int (status_code resp)))
          else json resp)"

fun except_clauses :: "pyexc \<Rightarrow> ustr \<Rightarrow> pyexc" where
  "except_clauses (TimeoutException m) name =
     DNSError TIMEOUT (ascii ''DNS lookup timed out for '' @ name)"
| "except_clauses (ConnectError m) name =
     DNSError NETWORK_ERROR (ascii ''Cannot reach DNS server: '' @ m)"
| "except_clauses (DNSError c m) name = DNSError c m"
| "except_clauses e name =
     (if is_Exception e then DNSError SERVER_ERROR (ascii ''Unexpected error: '' @ exc_str e)
      else e)"

definition fetch :: "(pyexc + Response) \<Rightarrow> ustr \<Rightarrow> pyexc + pyval" where
  "fetch got name =
     (case try_body got name of
        Inl e \<Rightarrow> Inl (except_clauses e name)
      | Inr data \<Rightarrow> Inr data)"

text \<open>
  The reply is then taken apart outside the \<open>try\<close>.  \<open>x.get\<close> exists on a \<open>dict\<close> only,
  \<open>for t in x\<close> needs an iterable, and adding to a float needs a number.
\<close>

definition quoted :: "ustr \<Rightarrow> ustr" where
  "quoted s = [39] @ s @ [39]"

definition get_attr :: "pyval \<Rightarrow> pyexc + (ustr \<times> pyval) list" where
  "get_attr v =
     (case v of
        PDict d \<Rightarrow> Inr d
      | _ \<Rightarrow> Inl (AttributeError
                (quoted (type_name v) @ ascii '' object has no attribute ''
                 @ quoted (ascii ''get''))))"

definition iterate :: "pyval \<Rightarrow> pyexc + pyval list" where
  "iterate v =
     (case v of
        PList xs \<Rightarrow> Inr xs
      | PStr s \<Rightarrow> Inr (map (\<lambda>c. PStr [c]) s)
      | PDict d \<Rightarrow> Inr (map (\<lambda>(k, x). PStr k) d)
      | _ \<Rightarrow> Inl (TypeError
                (quoted (type_name v) @ ascii '' object is not iterable'')))"

fun number :: "pyval \<Rightarrow> real option" where
  "number (PBool b) = Some (if b then 1 else 0)"
| "number (PInt i) = Some (real_of_int i)"
| "number (PFloat y) = Some y"
| "number v = None"

definition float_add :: "real \<Rightarrow> pyval \<Rightarrow> pyexc + real" where
  "float_add x v =
     (case number v of
        Some y \<Rightarrow> Inr (x + y)
      | None \<Rightarrow> Inl (TypeError
                (ascii ''unsupported operand type(s) for +: '' @ quoted (ascii ''float'')
                 @ ascii '' and '' @ quoted (type_name v))))"

definition parse_tool :: "pyval \<Rightarrow> pyexc + AgentTool" where
  "parse_tool t =
     (case get_attr t of
        Inl e \<Rightarrow> Inl e
      | Inr d \<Rightarrow>
          Inr \<lparr>at_name = dict_get d (ascii ''name'') (PStr []),
               at_description = dict_get d (ascii ''description'') (PStr []),
               at_input_schema =
                 py_or (dict_get d (ascii ''inputSchema'') PNone)
                       (dict_get d (ascii ''input_schema'') PNone),
               at_output_schema =
                 py_or (dict_get d (ascii ''outputSchema'') PNone)
                       (dict_get d (ascii ''output_schema'') PNone)\<rparr>)"

fun parse_tools :: "pyval list \<Rightarrow> pyexc + AgentTool list" where
  "parse_tools [] = Inr []"
| "parse_tools (t # ts) =
     (case parse_tool t of
        Inl e \<Rightarrow> Inl e
      | Inr a \<Rightarrow> (case parse_tools ts of Inl e \<Rightarrow> Inl e | Inr as \<Rightarrow> Inr (a # as)))"

definition known_keys :: "ustr list" where
  "known_keys = [ascii ''name'', ascii ''endpoint'', ascii ''publicKey'', ascii ''public_key'',
                 ascii ''tools'', ascii ''capabilities'', ascii ''ttl'']"

definition parse_response :: "DNSResolver \<Rightarrow> real \<Rightarrow> ustr \<Rightarrow> pyval \<Rightarrow> pyexc + ResolvedAgent" where
  "parse_response r now name data =
     (case get_attr data of
        Inl e \<Rightarrow> Inl e
      | Inr d \<Rightarrow>
     (case get_attr (dict_get d (ascii ''agent'') data) of
        Inl e \<Rightarrow> Inl e
      | Inr agent_data \<Rightarrow>
     (case iterate (dict_get agent_data (ascii ''tools'') (PList [])) of
        Inl e \<Rightarrow> Inl e
      | Inr tools_raw \<Rightarrow>
     (case parse_tools tools_raw of
        Inl e \<Rightarrow> Inl e
      | Inr tls \<Rightarrow>
          Inr \<lparr>ra_name = name,
               ra_endpoint = dict_get agent_data (ascii ''endpoint'') (PStr []),
               ra_public_key =
                 dict_get agent_data (ascii ''publicKey'')
                   (dict_get agent_data (ascii ''public_key'') (PStr [])),
               ra_tools = tls,
               ra_capabilities = dict_get agent_data (ascii ''capabilities'') (PList []),
               ra_ttl =
                 dict_get agent_data (ascii ''ttl'') (PInt (default_ttl_seconds (config r))),
               ra_resolved_at = now,
               ra_metadata = filter (\<lambda>(k, v). k \<notin> set known_keys) agent_data\<rparr>))))"

text \<open>
  From the request on: the request is issued and logged, the reply is taken apart, and only
  then is the cache entry written, under the name the body works with.
\<close>

definition resolve_fresh :: "world \<Rightarrow> net \<Rightarrow> ustr \<Rightarrow> (pyexc + ResolvedAgent) \<times> net" where
  "resolve_fresh w st name =
     (let r = resolver st;
          url = lookup_url r name;
          st1 = st\<lparr>requests := requests st @ [url]\<rparr>
      in case fetch (http_get w url) name of
           Inl e \<Rightarrow> (Inl e, st1)
         | Inr data \<Rightarrow>
        (case parse_response r (at_construct w) name data of
           Inl e \<Rightarrow> (Inl e, st1)
         | Inr ag \<Rightarrow>
        (case float_add (at_store w) (ra_ttl ag) of
           Inl e \<Rightarrow> (Inl e, st1)
         | Inr expires \<Rightarrow>
             (Inr ag,
              st1\<lparr>resolver :=
                    r\<lparr>cache := AList.update name \<lparr>agent = ag, expires_at = expires\<rparr> (cache r)\<rparr>\<rparr>))))"

definition resolve :: "world \<Rightarrow> net \<Rightarrow> ustr \<Rightarrow> (pyexc + ResolvedAgent) \<times> net" where
  "resolve w st target =
     (case target_name target of
        Inl e \<Rightarrow> (Inl e, st)
      | Inr name \<Rightarrow>
     (case map_of (cache (resolver st)) name of
        Some cached \<Rightarrow>
          if expires_at cached > at_check w then (Inr (agent cached), st)
          else resolve_fresh w st name
      | None \<Rightarrow> resolve_fresh w st name))"

text \<open>The condition of the cache check in \<open>resolve\<close>: \<open>cached and cached.expires_at > time.time()\<close>.\<close>

definition cache_hit :: "world \<Rightarrow> net \<Rightarrow> ustr \<Rightarrow> bool" where
  "cache_hit w st name =
     (case map_of (cache (resolver st)) name of
        None \<Rightarrow> False
      | Some cached \<Rightarrow> expires_at cached > at_check w)"

definition clear_cache :: "DNSResolver \<Rightarrow> DNSResolver" where
  "clear_cache r = r\<lparr>cache := []\<rparr>"

definition cache_size :: "DNSResolver \<Rightarrow> nat" where
  "cache_size r = length (cache r)"

section \<open>Sessions and the agent (core/types.py, agent.py)\<close>

record AgentID =
  aid_name :: ustr
  aid_public_key :: pyval
  aid_description :: ustr

datatype SessionState =
  INITIATING | HANDSHAKE | ACTIVE | SUSPENDED | RESUMING | CLOSING | CLOSED | ERROR_STATE

record Session =
  s_id :: ustr
  s_local_agent :: AgentID
  s_remote_agent :: AgentID
  s_state :: SessionState
  s_created_at :: real
  s_updated_at :: real
  s_metadata :: "(ustr \<times> pyval) list"

text \<open>
  The constructor of the dataclass \<open>Session\<close>: \<open>state\<close> is optional and defaults to
  \<open>INITIATING\<close>; the two timestamps default to readings of the clock.
\<close>

definition new_Session ::
  "ustr \<Rightarrow> AgentID \<Rightarrow> AgentID \<Rightarrow> SessionState option \<Rightarrow> real \<Rightarrow> real \<Rightarrow> Session" where
  "new_Session sid local remote st t_created t_updated =
     \<lparr>s_id = sid, s_local_agent = local, s_remote_agent = remote,
      s_state = (case st of None \<Rightarrow> INITIATING | Some x \<Rightarrow> x),
      s_created_at = t_created, s_updated_at = t_updated, s_metadata = []\<rparr>"

text \<open>
  A \<open>Session\<close> is a mutable object that the store and the caller of \<open>connect\<close> both
  refer to, so the sessions live in \<open>objects\<close> under an address, and the dict
  \<open>_sessions\<close> holds addresses by session id.  \<open>next_address\<close> is the address the next
  object gets.
\<close>

record Agent =
  a_name :: ustr
  identity :: AgentID
  tool_registry :: ToolRegistry
  net_state :: net
  sessions :: "(ustr \<times> nat) list"
  objects :: "nat \<Rightarrow> Session option"
  next_address :: nat
  is_running :: bool

record ConnectResult =
  cr_success :: bool
  cr_session :: "nat option"
  cr_error :: "ustr option"

definition start :: "Agent \<Rightarrow> Agent" where
  "start a = (if is_running a then a else a\<lparr>is_running := True\<rparr>)"

text \<open>The loop of \<open>stop\<close> over \<open>self._sessions.values()\<close>, one assignment per session.\<close>

fun close_all :: "nat list \<Rightarrow> (nat \<Rightarrow> Session option) \<Rightarrow> (nat \<Rightarrow> Session option)" where
  "close_all [] h = h"
| "close_all (r # rs) h =
     close_all rs (case h r of None \<Rightarrow> h | Some s \<Rightarrow> h(r \<mapsto> s\<lparr>s_state := CLOSED\<rparr>))"

definition stop :: "Agent \<Rightarrow> Agent" where
  "stop a =
     (if \<not> is_running a then a
      else a\<lparr>objects := close_all (map snd (sessions a)) (objects a),
             sessions := [],
             is_running := False\<rparr>)"

text \<open>
  \<open>connect\<close>.  The fresh session id (\<open>generate_id\<close>) and the two clock readings of the
  \<open>Session\<close> constructor are parameters.  An exception of \<open>resolve\<close> that derives from
  \<open>Exception\<close> becomes a result; any other leaves \<open>connect\<close>.
\<close>

definition connect ::
  "world \<Rightarrow> ustr \<Rightarrow> real \<Rightarrow> real \<Rightarrow> Agent \<Rightarrow> ustr \<Rightarrow> (pyexc + ConnectResult) \<times> Agent" where
  "connect w new_id t_created t_updated a target =
     (case resolve w (net_state a) target of
        (Inl e, st) \<Rightarrow>
          if is_Exception e then
            (Inr \<lparr>cr_success = False, cr_session = None,
                  cr_error = Some (ascii ''DNS resolution failed: '' @ exc_str e)\<rparr>,
             a\<lparr>net_state := st\<rparr>)
          else (Inl e, a\<lparr>net_state := st\<rparr>)
      | (Inr resolved, st) \<Rightarrow>
          (let session =
                 new_Session new_id (identity a)
                   \<lparr>aid_name = ra_name resolved, aid_public_key = ra_public_key resolved,
                    aid_description = []\<rparr>
                   (Some ACTIVE) t_created t_updated;
               addr = next_address a
           in (Inr \<lparr>cr_success = True, cr_session = Some addr, cr_error = None\<rparr>,
               a\<lparr>net_state := st,
                 objects := (objects a)(addr \<mapsto> session),
                 next_address := Suc addr,
                 sessions := AList.update new_id addr (sessions a)\<rparr>)))"

text \<open>
  The operator \<open>+\<close> on these values: integers, among them the booleans, add up to an
  integer, numbers with a float among them to a float, two strings and two lists are
  concatenated, and every other pair of operands raises \<open>TypeError\<close>.
\<close>

fun int_value :: "pyval \<Rightarrow> int option" where
  "int_value (PBool b) = Some (if b then 1 else 0)"
| "int_value (PInt i) = Some i"
| "int_value v = None"

definition unsupported_add :: "pyval \<Rightarrow> pyval \<Rightarrow> pyexc" where
  "unsupported_add a b =
     TypeError (ascii ''unsupported operand type(s) for +: '' @ quoted (type_name a)
                @ ascii '' and '' @ quoted (type_name b))"

definition only_concatenate :: "pyval \<Rightarrow> pyval \<Rightarrow> pyexc" where
  "only_concatenate a b =
     TypeError (ascii ''can only concatenate '' @ type_name a @ ascii '' (not '' @ [34]
                @ type_name b @ [34] @ ascii '') to '' @ type_name a)"

definition py_add :: "pyval \<Rightarrow> pyval \<Rightarrow> pyexc + pyval" where
  "py_add a b =
     (case (int_value a, int_value b) of
        (Some x, Some y) \<Rightarrow> Inr (PInt (x + y))
      | _ \<Rightarrow>
     (case (number a, number b) of
        (Some x, Some y) \<Rightarrow> Inr (PFloat (x + y))
      | _ \<Rightarrow>
     (case a of
        PStr s \<Rightarrow> (case b of PStr t \<Rightarrow> Inr (PStr (s @ t)) | _ \<Rightarrow> Inl (only_concatenate a b))
      | PList xs \<Rightarrow> (case b of PList ys \<Rightarrow> Inr (PList (xs @ ys)) | _ \<Rightarrow> Inl (only_concatenate a b))
      | _ \<Rightarrow> Inl (unsupported_add a b))))"

text \<open>
  Two handlers as tests/test_tools.py has them, written as functions of a module:
  \<open>async def add(a, b): return a + b\<close> and \<open>async def fail(): raise ValueError("boom")\<close>.
  The call \<open>handler(**params)\<close> raises \<open>TypeError\<close> for the first key of \<open>params\<close> that is
  no parameter of the handler, and otherwise for the parameters that \<open>params\<close> leaves
  out.
\<close>

definition add_handler :: ToolHandler where
  "add_handler params =
     (case find (\<lambda>(k, v). k \<noteq> ascii ''a'' \<and> k \<noteq> ascii ''b'') params of
        Some (k, v) \<Rightarrow>
          Raised (TypeError (ascii ''add() got an unexpected keyword argument '' @ quoted k))
      | None \<Rightarrow>
     (case (map_of params (ascii ''a''), map_of params (ascii ''b'')) of
        (None, None) \<Rightarrow>
          Raised (TypeError (ascii ''add() missing 2 required positional arguments: ''
                             @ quoted (ascii ''a'') @ ascii '' and '' @ quoted (ascii ''b'')))
      | (None, Some y) \<Rightarrow>
          Raised (TypeError (ascii ''add() missing 1 required positional argument: ''
                             @ quoted (ascii ''a'')))
      | (Some x, None) \<Rightarrow>
          Raised (TypeError (ascii ''add() missing 1 required positional argument: ''
                             @ quoted (ascii ''b'')))
      | (Some x, Some y) \<Rightarrow>
          (case py_add x y of Inl e \<Rightarrow> Raised e | Inr v \<Rightarrow> Returned v)))"

definition fail_handler :: ToolHandler where
  "fail_handler params =
     (case params of
        [] \<Rightarrow> Raised (OtherException (ascii ''boom''))
      | (k, v) # rest \<Rightarrow>
          Raised (TypeError (ascii ''fail() got an unexpected keyword argument '' @ quoted k)))"

definition test_registry :: ToolRegistry where
  "test_registry =
     snd (register (snd (register \<lparr>tools = []\<rparr> (ascii ''add'') add_handler [] PNone PNone))
            (ascii ''fail'') fail_handler [] PNone PNone)"

definition test_context :: ToolContext where
  "test_context = \<lparr>tc_session_id = ascii ''s1'', tc_agent_name = ascii ''test'', tc_metadata = []\<rparr>"

definition exit_handler :: ToolHandler where
  "exit_handler params = Raised (BaseExceptionOnly (ascii ''exit''))"

definition exit_registry :: ToolRegistry where
  "exit_registry = snd (register \<lparr>tools = []\<rparr> (ascii ''quit'') exit_handler [] PNone PNone)"

text \<open>
  \<open>DNSResolver.__init__\<close>, and a resolver, a service and clocks to run \<open>resolve\<close> on.
  \<open>world_at t service\<close> is a world whose three clock readings are all \<open>t\<close>.
\<close>

definition new_DNSResolver :: "ustr \<Rightarrow> int \<Rightarrow> int \<Rightarrow> bool \<Rightarrow> DNSResolver" where
  "new_DNSResolver srv prt tmo https =
     \<lparr>config = \<lparr>server = srv, timeout_ms = tmo, default_ttl_seconds = 300,
                 use_https = https, port = prt\<rparr>,
      cache = [],
      base_url = (if https then ascii ''https'' else ascii ''http'') @ ascii ''://'' @ srv
                 @ ascii '':'' @ str_int prt\<rparr>"

definition test_net :: net where
  "test_net = \<lparr>resolver = new_DNSResolver (ascii ''dns.test'') 3000 10000 False, requests = []\<rparr>"

definition world_at :: "real \<Rightarrow> (ustr \<Rightarrow> pyexc + Response) \<Rightarrow> world" where
  "world_at t service = \<lparr>http_get = service, at_check = t, at_construct = t, at_store = t\<rparr>"

definition reply_ok :: pyval where
  "reply_ok = PDict [(ascii ''endpoint'', PStr (ascii ''https://alice.test:8443'')),
                     (ascii ''publicKey'', PStr (ascii ''pk'')),
                     (ascii ''ttl'', PInt 60)]"

definition service_ok :: "ustr \<Rightarrow> pyexc + Response" where
  "service_ok url = Inr \<lparr>status_code = 200, json = Inr reply_ok\<rparr>"

definition service_404 :: "ustr \<Rightarrow> pyexc + Response" where
  "service_404 url = Inr \<lparr>status_code = 404, json = Inr PNone\<rparr>"

text \<open>A reply with status 200 whose body is the JSON array \<open>[]\<close>, and one whose body is not JSON.\<close>

definition service_array :: "ustr \<Rightarrow> pyexc + Response" where
  "service_array url = Inr \<lparr>status_code = 200, json = Inr (PList [])\<rparr>"

definition service_not_json :: "ustr \<Rightarrow> pyexc + Response" where
  "service_not_json url =
     Inr \<lparr>status_code = 200, json = Inl (OtherException (ascii ''Expecting value''))\<rparr>"

text \<open>
  What \<open>resolve\<close> makes of \<open>reply_ok\<close> for the name alice at time \<open>t\<close>, and the state of
  \<open>test_net\<close> after that resolution at time 100: one request sent, one cache entry, which
  expires at 160.
\<close>

definition alice_at :: "real \<Rightarrow> ResolvedAgent" where
  "alice_at t =
     \<lparr>ra_name = ascii ''alice'', ra_endpoint = PStr (ascii ''https://alice.test:8443''),
      ra_public_key = PStr (ascii ''pk''), ra_tools = [], ra_capabilities = PList [],
      ra_ttl = PInt 60, ra_resolved_at = t, ra_metadata = []\<rparr>"

definition net_cached :: net where
  "net_cached =
     \<lparr>resolver = (resolver test_net)
        \<lparr>cache := [(ascii ''alice'', \<lparr>agent = alice_at 100, expires_at = 160\<rparr>)]\<rparr>,
      requests = [ascii ''http://dns.test:3000/dns/lookup/alice'']\<rparr>"

text \<open>
  An agent as \<open>Agent("test-agent")\<close> constructs it, over \<open>test_net\<close>; the same agent
  once started and connected to alice at time 100 under the session id session-1; and a
  running agent that holds two sessions, one active and one in the error state.
\<close>

definition test_agent :: Agent where
  "test_agent =
     \<lparr>a_name = ascii ''test-agent'',
      identity = \<lparr>aid_name = ascii ''test-agent'', aid_public_key = PStr (ascii ''local-key''),
                  aid_description = ascii ''AGENIUM Agent: test-agent''\<rparr>,
      tool_registry = \<lparr>tools = []\<rparr>,
      net_state = test_net,
      sessions = [],
      objects = (\<lambda>addr. None),
      next_address = 0,
      is_running = False\<rparr>"

definition session_alice :: Session where
  "session_alice =
     \<lparr>s_id = ascii ''session-1'', s_local_agent = identity test_agent,
      s_remote_agent = \<lparr>aid_name = ascii ''alice'', aid_public_key = PStr (ascii ''pk''),
                        aid_description = []\<rparr>,
      s_state = ACTIVE, s_created_at = 100, s_updated_at = 100, s_metadata = []\<rparr>"

definition connected_agent :: Agent where
  "connected_agent =
     test_agent\<lparr>net_state := net_cached,
                 sessions := [(ascii ''session-1'', 0)],
                 objects := (\<lambda>addr. if addr = 0 then Some session_alice else None),
                 next_address := 1,
                 is_running := True\<rparr>"

definition two_sessions_agent :: Agent where
  "two_sessions_agent =
     connected_agent\<lparr>
       sessions := [(ascii ''session-1'', 0), (ascii ''session-2'', 1)],
       objects := (\<lambda>addr. if addr = 0 then Some session_alice
                             else if addr = 1 then
                               Some (session_alice\<lparr>s_id := ascii ''session-2'', s_state := ERROR_STATE\<rparr>)
                             else None),
       next_address := 2\<rparr>"

text \<open>A name of 50 code points: U+0130 and 49 times the letter a.\<close>

definition dotted_name :: ustr where
  "dotted_name = 0x130 # replicate 49 97"

text \<open>A request that times out, one that cannot connect, and a reply with status 503.\<close>

definition service_timeout :: "ustr \<Rightarrow> pyexc + Response" where
  "service_timeout url = Inl (TimeoutException (ascii ''timed out''))"

definition service_refused :: "ustr \<Rightarrow> pyexc + Response" where
  "service_refused url = Inl (ConnectError (ascii ''All connection attempts failed''))"

definition service_503 :: "ustr \<Rightarrow> pyexc + Response" where
  "service_503 url = Inr \<lparr>status_code = 503, json = Inr PNone\<rparr>"

text \<open>A request that is cancelled while it is awaited (\<open>asyncio.CancelledError\<close>).\<close>

definition service_cancelled :: "ustr \<Rightarrow> pyexc + Response" where
  "service_cancelled url = Inl (BaseExceptionOnly (ascii ''cancelled''))"

text \<open>The code of the typed error that a call ended with, if it ended with one.\<close>

definition failure_code :: "pyexc + 'a \<Rightarrow> DNSErrorCode option" where
  "failure_code r = (case r of Inl e \<Rightarrow> dns_code e | Inr x \<Rightarrow> None)"

section \<open>Regular expressions: the matcher decides the language\<close>

lemma nullable_lang: "nullable r \<longleftrightarrow> [] \<in> lang r"
  by (induction r) (auto intro: star_nil)

lemma star_cons:
  "c # w \<in> star A \<longleftrightarrow> (\<exists>u v. w = u @ v \<and> c # u \<in> A \<and> v \<in> star A)"
proof
  assume "c # w \<in> star A"
  then show "\<exists>u v. w = u @ v \<and> c # u \<in> A \<and> v \<in> star A"
  proof (induction "c # w" arbitrary: w rule: star.induct)
    case (star_app u v)
    then show ?case by (cases u) auto
  qed
next
  assume "\<exists>u v. w = u @ v \<and> c # u \<in> A \<and> v \<in> star A"
  then obtain u v where "w = u @ v" "c # u \<in> A" "v \<in> star A" by blast
  then show "c # w \<in> star A" using star_app[of "c # u" A v] by simp
qed

lemma deriv_lang: "w \<in> lang (deriv c r) \<longleftrightarrow> c # w \<in> lang r"
proof (induction r arbitrary: w)
  case (Cat r s)
  then show ?case by (auto simp: nullable_lang Cons_eq_append_conv)
next
  case (Rep r)
  then show ?case by (auto simp: star_cons)
qed auto

lemma matches_lang: "matches r w \<longleftrightarrow> w \<in> lang r"
  by (induction w arbitrary: r) (simp_all add: nullable_lang deriv_lang)

lemma star_class: "w \<in> star {[c] | c. p c} \<longleftrightarrow> list_all p w"
proof
  show "w \<in> star {[c] | c. p c} \<Longrightarrow> list_all p w"
    by (induction rule: star.induct) auto
  show "list_all p w \<Longrightarrow> w \<in> star {[c] | c. p c}"
  proof (induction w)
    case (Cons a w)
    then show ?case using star_app[of "[a]" "{[c] | c. p c}" w] by auto
  qed (simp add: star_nil)
qed

lemma lang_name_tail:
  "v \<in> lang (Cat (Rep (Class p)) (Class q)) \<longleftrightarrow> (\<exists>m d. v = m @ [d] \<and> list_all p m \<and> q d)"
  unfolding lang.simps star_class by blast

lemma lang_name_head:
  "w \<in> lang (Cat (Class q) r) \<longleftrightarrow> (\<exists>c v. w = c # v \<and> q c \<and> v \<in> lang r)"
proof
  assume "w \<in> lang (Cat (Class q) r)"
  then show "\<exists>c v. w = c # v \<and> q c \<and> v \<in> lang r" by auto
next
  assume "\<exists>c v. w = c # v \<and> q c \<and> v \<in> lang r"
  then obtain c v where "w = [c] @ v" "q c" "v \<in> lang r" by auto
  then show "w \<in> lang (Cat (Class q) r)" unfolding lang.simps by blast
qed

lemma lang_AGENT_NAME_RE:
  "w \<in> lang AGENT_NAME_RE \<longleftrightarrow>
     (\<exists>c v. w = c # v \<and> name_edge_char c \<and>
        (v = [] \<or> (\<exists>m d. v = m @ [d] \<and> list_all name_inner_char m \<and> name_edge_char d)))"
  unfolding AGENT_NAME_RE_def lang_name_head lang.simps(6) insert_iff lang_name_tail ..

lemma matches_AGENT_NAME_RE: "matches AGENT_NAME_RE w \<longleftrightarrow> name_body w"
proof (cases w)
  case Nil
  then show ?thesis by (simp add: matches_lang lang_AGENT_NAME_RE name_body_def)
next
  case (Cons c v)
  show ?thesis
  proof (cases v rule: rev_cases)
    case Nil
    with Cons show ?thesis
      by (auto simp: matches_lang lang_AGENT_NAME_RE name_body_def name_inner_char_def)
  next
    case (snoc m d)
    with Cons show ?thesis
      by (auto simp: matches_lang lang_AGENT_NAME_RE name_body_def name_inner_char_def)
  qed
qed

lemma name_body_iff:
  "name_body w \<longleftrightarrow> w \<noteq> [] \<and> hd w \<noteq> 45 \<and> last w \<noteq> 45 \<and> list_all name_inner_char w"
proof (cases w rule: rev_cases)
  case Nil
  then show ?thesis by (simp add: name_body_def)
next
  case (snoc m d)
  then show ?thesis
    by (cases m) (auto simp: name_body_def name_inner_char_def name_edge_char_def)
qed

section \<open>Lowercasing\<close>

lemma lower_Nil: "lower [] = []"
  by (simp add: lower_def)

lemma lower_Cons: "lower (c # s) = lower_cp c @ lower s"
  by (simp add: lower_def)

lemma lower_append: "lower (s @ t) = lower s @ lower t"
  by (simp add: lower_def)

lemma lower_cp_not_Nil: "lower_cp c \<noteq> []"
  by (simp add: lower_cp_def)

lemma lower_lower_cp: "lower (lower_cp c) = lower_cp c"
  by (simp add: lower_cp_def lower_def)

lemma lower_idem: "lower (lower s) = lower s"
  by (induction s) (simp_all add: lower_Nil lower_Cons lower_append lower_lower_cp)

lemma lower_eq_Nil: "lower s = [] \<longleftrightarrow> s = []"
  by (cases s) (simp_all add: lower_Nil lower_Cons lower_cp_not_Nil)

lemma length_lower_cp: "1 \<le> length (lower_cp c)"
  by (simp add: lower_cp_def)

lemma length_lower: "length s \<le> length (lower s)"
proof (induction s)
  case (Cons c s)
  then show ?case using length_lower_cp[of c] by (simp add: lower_Cons)
qed (simp add: lower_Nil)

lemma hd_lower_cp: "hd (lower_cp c) = 45 \<longleftrightarrow> c = 45"
  by (simp add: lower_cp_def)

lemma last_lower_cp: "last (lower_cp c) = 45 \<longleftrightarrow> c = 45"
  by (simp add: lower_cp_def)

lemma last_lower_cp_lf: "last (lower_cp c) = 10 \<longleftrightarrow> c = 10"
  by (simp add: lower_cp_def)

lemma hd_lower: "s \<noteq> [] \<Longrightarrow> hd (lower s) = hd (lower_cp (hd s))"
  by (cases s) (simp_all add: lower_Cons lower_cp_not_Nil)

lemma last_lower: "s \<noteq> [] \<Longrightarrow> last (lower s) = last (lower_cp (last s))"
  by (cases s rule: rev_cases) (simp_all add: lower_append lower_Cons lower_Nil lower_cp_not_Nil)

section \<open>Names and URIs\<close>

lemma startswith_hyphen: "startswith s (ascii ''-'') \<longleftrightarrow> s \<noteq> [] \<and> hd s = 45"
  by (cases s) (auto simp: startswith_def ascii_def)

lemma endswith_hyphen: "endswith s (ascii ''-'') \<longleftrightarrow> s \<noteq> [] \<and> last s = 45"
  by (cases s rule: rev_cases) (auto simp: endswith_def ascii_def)

lemma validate_agent_name_iff:
  "validate_agent_name s \<longleftrightarrow>
     2 \<le> length s \<and> length s \<le> 50 \<and> hd s \<noteq> 45 \<and> last s \<noteq> 45 \<and>
     (name_body (lower s) \<or> last s = 10 \<and> name_body (butlast (lower s)))"
proof (cases "s = []")
  case True
  then show ?thesis by (simp add: validate_agent_name_def)
next
  case False
  then show ?thesis
    by (auto simp: validate_agent_name_def startswith_hyphen endswith_hyphen
        match_anchored_def matches_AGENT_NAME_RE lower_eq_Nil last_lower last_lower_cp_lf)
qed

lemma parse_agent_uri_iff:
  "parse_agent_uri u = Some n \<longleftrightarrow>
     startswith u (ascii ''agent://'') \<and> n = lower (drop 8 u) \<and>
     2 \<le> length n \<and> length n \<le> 50 \<and> hd n \<noteq> 45 \<and> last n \<noteq> 45 \<and>
     (name_body n \<or> last n = 10 \<and> name_body (butlast n))"
  by (auto simp: parse_agent_uri_def Let_def startswith_hyphen endswith_hyphen
        match_anchored_def matches_AGENT_NAME_RE)

text \<open>
  C8, as stated, fails: the name made of the letter a and the code point U+1F600 has
  length 2 and only characters that the specification's grammar allows, and
  \<open>validate_agent_name\<close> rejects it, since the character class of the source ends at
  U+FFFF.
\<close>

theorem validate_agent_name_rejects_above_FFFF:
  "validate_agent_name [97, 0x1F600] \<noteq> spec_agent_name [97, 0x1F600]"
  by (simp add: validate_agent_name_def spec_agent_name_def lower_def lower_cp_def
      startswith_def endswith_def ascii_def match_anchored_def AGENT_NAME_RE_def
      name_edge_char_def name_inner_char_def)

text \<open>
  C8 (amended): for every string \<open>s\<close> that does not end in a line feed and whose
  lowercase form has as many code points as \<open>s\<close>, \<open>validate_agent_name s\<close> is true
  exactly when, after lowercasing, \<open>s\<close> has length 2 to 50, every character is a
  lowercase ASCII letter or digit, a hyphen or a code point from U+0080 to U+FFFF, and \<open>s\<close>
  neither starts nor ends with a hyphen.  For every string whatsoever it is false when the
  length is below 2 or above 50, and when the string starts or ends with a hyphen.
\<close>

theorem validate_agent_name_grammar:
  "(last s \<noteq> 10 \<and> length (lower s) = length s \<longrightarrow>
      (validate_agent_name s \<longleftrightarrow>
         2 \<le> length (lower s) \<and> length (lower s) \<le> 50 \<and>
         list_all (\<lambda>c. (97 \<le> c \<and> c \<le> 122) \<or> (48 \<le> c \<and> c \<le> 57) \<or> c = 45
                       \<or> (0x80 \<le> c \<and> c \<le> 0xFFFF)) (lower s) \<and>
         \<not> startswith (lower s) (ascii ''-'') \<and> \<not> endswith (lower s) (ascii ''-''))) \<and>
   (length s < 2 \<or> length s > 50 \<longrightarrow> \<not> validate_agent_name s) \<and>
   (startswith s (ascii ''-'') \<or> endswith s (ascii ''-'') \<longrightarrow> \<not> validate_agent_name s)"
proof (intro conjI impI)
  assume h: "last s \<noteq> 10 \<and> length (lower s) = length s"
  have cls: "(\<lambda>c. (97 \<le> c \<and> c \<le> 122) \<or> (48 \<le> c \<and> c \<le> 57) \<or> c = 45
                       \<or> (0x80 \<le> c \<and> c \<le> 0xFFFF)) = name_inner_char"
    by (auto simp: name_inner_char_def name_edge_char_def fun_eq_iff)
  show "validate_agent_name s \<longleftrightarrow>
         2 \<le> length (lower s) \<and> length (lower s) \<le> 50 \<and>
         list_all (\<lambda>c. (97 \<le> c \<and> c \<le> 122) \<or> (48 \<le> c \<and> c \<le> 57) \<or> c = 45
                       \<or> (0x80 \<le> c \<and> c \<le> 0xFFFF)) (lower s) \<and>
         \<not> startswith (lower s) (ascii ''-'') \<and> \<not> endswith (lower s) (ascii ''-'')"
  proof (cases "s = []")
    case True
    then show ?thesis by (simp add: validate_agent_name_def lower_Nil)
  next
    case False
    with h show ?thesis
      unfolding cls validate_agent_name_iff name_body_iff startswith_hyphen endswith_hyphen
      by (auto simp: lower_eq_Nil hd_lower last_lower hd_lower_cp last_lower_cp)
  qed
next
  assume "length s < 2 \<or> length s > 50"
  then show "\<not> validate_agent_name s" by (auto simp: validate_agent_name_def)
next
  assume "startswith s (ascii ''-'') \<or> endswith s (ascii ''-'')"
  then show "\<not> validate_agent_name s" by (auto simp: validate_agent_name_def)
qed

theorem validate_agent_name_grammar_witness:
  "last (ascii ''my-agent'') \<noteq> 10 \<and>
   length (lower (ascii ''my-agent'')) = length (ascii ''my-agent'') \<and>
   validate_agent_name (ascii ''my-agent'') \<and>
   length (ascii ''a'') < 2 \<and> \<not> validate_agent_name (ascii ''a'') \<and>
   startswith (ascii ''-bad'') (ascii ''-'') \<and> \<not> validate_agent_name (ascii ''-bad'')"
  using validate_agent_name_grammar [of "ascii ''my-agent''"]
    validate_agent_name_grammar [of "ascii ''a''"]
    validate_agent_name_grammar [of "ascii ''-bad''"]
  by (simp add: ascii_def lower_def lower_cp_def startswith_def endswith_def)

section \<open>The round trip between names and URIs\<close>

lemma length_scheme: "length (ascii ''agent://'') = 8"
  by (simp add: ascii_def)

lemma startswith_agent: "startswith u (ascii ''agent://'') \<longleftrightarrow> take 8 u = ascii ''agent://''"
  unfolding startswith_def length_scheme by (rule refl)

lemma lower_scheme: "lower (ascii ''agent://'') = ascii ''agent://''"
  by (simp add: lower_def lower_cp_def ascii_def)

lemma drop_to_agent_uri:
  "drop 8 (to_agent_uri n) = lower n" "startswith (to_agent_uri n) (ascii ''agent://'')"
  by (simp_all add: to_agent_uri_def startswith_def ascii_def)

text \<open>
  The round trips that hold: from a URI that \<open>parse_agent_uri\<close> accepts and that is its
  own lowercase form, and from a valid name whose lowercase form has at most 50 code
  points; and the case folding of the name part.  \<open>to_agent_uri\<close> of the \<open>None\<close> that
  \<open>parse_agent_uri\<close> returns for a rejected URI raises, so the composition is written with
  \<open>map_option\<close>.
\<close>

lemma to_agent_uri_parse:
  assumes "parse_agent_uri u = Some n" "lower u = u"
  shows "to_agent_uri n = u"
proof -
  from assms(1) have p: "take 8 u = ascii ''agent://''" and n: "n = lower (drop 8 u)"
    by (simp_all add: parse_agent_uri_iff startswith_agent)
  have "u = take 8 u @ drop 8 u" by simp
  with p have u: "u = ascii ''agent://'' @ drop 8 u" by simp
  have "lower u = lower (ascii ''agent://'') @ lower (drop 8 u)"
    by (subst u) (rule lower_append)
  with n have "lower u = ascii ''agent://'' @ n" by (simp add: lower_scheme)
  with assms(2) n show ?thesis by (simp add: to_agent_uri_def lower_idem)
qed

lemma parse_to_agent_uri:
  assumes "validate_agent_name n" "length (lower n) \<le> 50"
  shows "parse_agent_uri (to_agent_uri n) = Some (lower n)"
proof -
  from assms(1) have v: "2 \<le> length n" "hd n \<noteq> 45" "last n \<noteq> 45"
     "name_body (lower n) \<or> last n = 10 \<and> name_body (butlast (lower n))"
    by (simp_all add: validate_agent_name_iff)
  then have ne: "n \<noteq> []" by auto
  have len: "2 \<le> length (lower n)" using v(1) length_lower[of n] by simp
  have h: "hd (lower n) \<noteq> 45" using ne v(2) by (simp add: hd_lower hd_lower_cp)
  have l: "last (lower n) \<noteq> 45" using ne v(3) by (simp add: last_lower last_lower_cp)
  have lf: "last (lower n) = 10 \<longleftrightarrow> last n = 10"
    using ne by (simp add: last_lower last_lower_cp_lf)
  have b: "name_body (lower n) \<or> last (lower n) = 10 \<and> name_body (butlast (lower n))"
    using v(4) lf by blast
  show ?thesis
    unfolding parse_agent_uri_iff drop_to_agent_uri lower_idem
    using len h l b assms(2) drop_to_agent_uri(2) by blast
qed

lemma to_agent_uri_roundtrip:
  assumes "validate_agent_name n" "length (lower n) \<le> 50"
  shows "map_option to_agent_uri (parse_agent_uri (to_agent_uri n)) = Some (to_agent_uri n)"
  using parse_to_agent_uri[OF assms] by (simp add: to_agent_uri_def lower_idem)

lemma parse_My_Agent: "parse_agent_uri (ascii ''agent://My-Agent'') = Some (ascii ''my-agent'')"
  by (simp add: parse_agent_uri_def ascii_def startswith_def endswith_def lower_def lower_cp_def
     match_anchored_def AGENT_NAME_RE_def name_edge_char_def name_inner_char_def)

text \<open>Where the lowercase form is longer than 50 code points, the URI is rejected.\<close>

lemma parse_to_agent_uri_long:
  "50 < length (lower n) \<Longrightarrow> parse_agent_uri (to_agent_uri n) = None"
  by (simp add: parse_agent_uri_def drop_to_agent_uri lower_idem)

lemma dotted_name_eval:
  "dotted_name = 0x130 # ascii ''aaaaaaaaaaaaaaaaaaaaaaaaaaaaaaaaaaaaaaaaaaaaaaaaa''"
  unfolding dotted_name_def ascii_def by (simp add: eval_nat_numeral)

lemma lower_dotted:
  "lower dotted_name = [0x69, 0x307] @ ascii ''aaaaaaaaaaaaaaaaaaaaaaaaaaaaaaaaaaaaaaaaaaaaaaaaa''"
  unfolding dotted_name_eval by (simp add: lower_def lower_cp_def ascii_def)

lemma length_dotted: "length dotted_name = 50" "length (lower dotted_name) = 51"
  by (simp_all add: lower_dotted ascii_def) (simp add: dotted_name_def)

lemma body_dotted: "name_body (lower dotted_name)"
  unfolding lower_dotted name_body_def
  by (simp add: ascii_def name_inner_char_def name_edge_char_def)

lemma ends_dotted: "hd dotted_name = 0x130" "last dotted_name = 97"
  by (simp_all add: dotted_name_def)

text \<open>
  C7 at a failing input: the name of U+0130 followed by 49 times the letter a has 50 code
  points and \<open>validate_agent_name\<close> accepts it, its lowercase form has 51, and
  \<open>parse_agent_uri\<close> rejects the URI that \<open>to_agent_uri\<close> makes of it, so the round trip
  does not come back to that URI.
\<close>

theorem roundtrip_fails_dotted:
  "length dotted_name = 50 \<and> validate_agent_name dotted_name \<and>
   length (lower dotted_name) = 51 \<and>
   parse_agent_uri (to_agent_uri dotted_name) = None \<and>
   map_option to_agent_uri (parse_agent_uri (to_agent_uri dotted_name))
     \<noteq> Some (to_agent_uri dotted_name)"
  by (simp add: validate_agent_name_iff length_dotted body_dotted ends_dotted
      parse_to_agent_uri_long)

section \<open>Frames\<close>

text \<open>
  C9: \<open>validate_frame\<close> is true for a frame exactly when it is an instance of one of the
  four frame classes with a non-empty id, and a request has a non-empty method, a response
  a non-empty request_id, an event a non-empty event name, an error a non-empty
  request_id; it is false for a value that is not a frame and for a request frame with an
  empty method.
\<close>

theorem validate_frame_iff:
  "(validate_frame frame \<longleftrightarrow>
      (case frame of
         IsRequestFrame f \<Rightarrow> rq_id f \<noteq> [] \<and> rq_method f \<noteq> []
       | IsResponseFrame f \<Rightarrow> rs_id f \<noteq> [] \<and> rs_request_id f \<noteq> []
       | IsEventFrame f \<Rightarrow> ev_id f \<noteq> [] \<and> ev_event f \<noteq> []
       | IsErrorFrame f \<Rightarrow> er_id f \<noteq> [] \<and> er_request_id f \<noteq> []
       | NotAFrame v \<Rightarrow> False)) \<and>
   \<not> validate_frame (NotAFrame v) \<and>
   (rq_method rf = [] \<longrightarrow> \<not> validate_frame (IsRequestFrame rf))"
  by (cases frame) (simp_all add: validate_frame_def)

theorem validate_frame_iff_witness:
  "validate_frame (IsRequestFrame (create_request_frame (ascii ''id-1'') 0 (ascii ''test'') [] None)) \<and>
   validate_frame (IsResponseFrame (create_response_frame (ascii ''id-2'') 0 (ascii ''req-1'') PNone None)) \<and>
   validate_frame (IsEventFrame (create_event_frame (ascii ''id-3'') 0 (ascii ''test'') PNone None)) \<and>
   rq_method (create_request_frame (ascii ''id-4'') 0 [] [] None) = [] \<and>
   \<not> validate_frame (IsRequestFrame (create_request_frame (ascii ''id-4'') 0 [] [] None)) \<and>
   \<not> validate_frame (NotAFrame (PStr (ascii ''not a frame'')))"
  using
    validate_frame_iff [of "IsRequestFrame (create_request_frame (ascii ''id-1'') 0 (ascii ''test'') [] None)"]
    validate_frame_iff [of "IsResponseFrame (create_response_frame (ascii ''id-2'') 0 (ascii ''req-1'') PNone None)"]
    validate_frame_iff [of "IsEventFrame (create_event_frame (ascii ''id-3'') 0 (ascii ''test'') PNone None)"
                           "PStr (ascii ''not a frame'')" "create_request_frame (ascii ''id-4'') 0 [] [] None"]
  by (simp add: create_request_frame_def create_response_frame_def create_event_frame_def ascii_def)

section \<open>The tool registry\<close>

text \<open>
  C1, as stated, fails: a handler that raises an exception which does not derive from
  \<open>Exception\<close> (here \<open>SystemExit\<close>) is caught by neither \<open>except\<close> clause, and the
  exception leaves \<open>invoke\<close>.
\<close>

theorem invoke_propagates_BaseException:
  "fst (invoke exit_registry (ascii ''quit'') [] test_context) = Inl (BaseExceptionOnly (ascii ''exit''))"
  by (simp add: invoke_def exit_registry_def register_def exit_handler_def Let_def)

text \<open>
  C1 (amended): for every tool name, parameter mapping and context, \<open>invoke\<close> leaves the
  registry as it was, and: if the name is not registered it returns success=false with
  the error \<open>Tool not found: name\<close>; if the handler returns a value it returns
  success=true with that value; if the handler raises an exception that derives from
  \<open>Exception\<close> it returns success=false with the exception's message after the prefix
  \<open>Invalid parameters:\<close> (for a \<open>TypeError\<close>) or \<open>Tool error:\<close> (otherwise); an
  exception that does not derive from \<open>Exception\<close> leaves \<open>invoke\<close>.
\<close>

theorem invoke_total:
  "(map_of (tools reg) name = None \<longrightarrow>
      invoke reg name params ctx =
        (Inr \<lparr>success = False, result = PNone, error = Some (ascii ''Tool not found: '' @ name)\<rparr>, reg)) \<and>
   (map_of (tools reg) name = Some (defn, handler) \<and> handler params = Returned v \<longrightarrow>
      invoke reg name params ctx = (Inr \<lparr>success = True, result = v, error = None\<rparr>, reg)) \<and>
   (map_of (tools reg) name = Some (defn, handler) \<and> handler params = Raised e \<and> is_Exception e \<longrightarrow>
      invoke reg name params ctx =
        (Inr \<lparr>success = False, result = PNone,
              error = Some ((if is_TypeError e then ascii ''Invalid parameters: ''
                             else ascii ''Tool error: '') @ exc_str e)\<rparr>, reg)) \<and>
   (map_of (tools reg) name = Some (defn, handler) \<and> handler params = Raised e \<and> \<not> is_Exception e \<longrightarrow>
      invoke reg name params ctx = (Inl e, reg)) \<and>
   snd (invoke reg name params ctx) = reg"
  by (cases e) (auto simp: invoke_def split: option.splits outcome.splits)

lemma tools_test_registry:
  "tools test_registry =
     [(ascii ''add'', \<lparr>td_name = ascii ''add'', td_description = [], td_input_schema = PNone,
                       td_output_schema = PNone\<rparr>, add_handler),
      (ascii ''fail'', \<lparr>td_name = ascii ''fail'', td_description = [], td_input_schema = PNone,
                        td_output_schema = PNone\<rparr>, fail_handler)]"
  by (simp add: test_registry_def register_def ascii_def Let_def)

lemma tools_exit_registry:
  "tools exit_registry =
     [(ascii ''quit'', \<lparr>td_name = ascii ''quit'', td_description = [], td_input_schema = PNone,
                       td_output_schema = PNone\<rparr>, exit_handler)]"
  by (simp add: exit_registry_def register_def Let_def)

theorem invoke_total_witness:
  "fst (invoke test_registry (ascii ''missing'') [] test_context) =
     Inr \<lparr>success = False, result = PNone, error = Some (ascii ''Tool not found: missing'')\<rparr> \<and>
   fst (invoke test_registry (ascii ''add'') [(ascii ''a'', PInt 3), (ascii ''b'', PInt 4)] test_context) =
     Inr \<lparr>success = True, result = PInt 7, error = None\<rparr> \<and>
   invoke test_registry (ascii ''fail'') [] test_context =
     (Inr \<lparr>success = False, result = PNone, error = Some (ascii ''Tool error: boom'')\<rparr>, test_registry) \<and>
   fst (invoke test_registry (ascii ''add'') [(ascii ''a'', PInt 3)] test_context) =
     Inr \<lparr>success = False, result = PNone,
          error = Some (ascii ''Invalid parameters: add() missing 1 required positional argument: ''
                        @ quoted (ascii ''b''))\<rparr> \<and>
   invoke exit_registry (ascii ''quit'') [] test_context =
     (Inl (BaseExceptionOnly (ascii ''exit'')), exit_registry)"
  using
    invoke_total [where reg = test_registry and name = "ascii ''missing''" and params = "[]"
      and ctx = test_context]
    invoke_total [where reg = test_registry and name = "ascii ''add''"
      and params = "[(ascii ''a'', PInt 3), (ascii ''b'', PInt 4)]" and ctx = test_context
      and defn = "\<lparr>td_name = ascii ''add'', td_description = [], td_input_schema = PNone,
                       td_output_schema = PNone\<rparr>" and handler = add_handler and v = "PInt 7"]
    invoke_total [where reg = test_registry and name = "ascii ''fail''"
      and params = "[]" and ctx = test_context
      and defn = "\<lparr>td_name = ascii ''fail'', td_description = [], td_input_schema = PNone,
                       td_output_schema = PNone\<rparr>" and handler = fail_handler
      and e = "OtherException (ascii ''boom'')"]
    invoke_total [where reg = test_registry and name = "ascii ''add''"
      and params = "[(ascii ''a'', PInt 3)]" and ctx = test_context
      and defn = "\<lparr>td_name = ascii ''add'', td_description = [], td_input_schema = PNone,
                       td_output_schema = PNone\<rparr>" and handler = add_handler
      and e = "TypeError (ascii ''add() missing 1 required positional argument: ''
                          @ quoted (ascii ''b''))"]
    invoke_total [where reg = exit_registry and name = "ascii ''quit''"
      and params = "[]" and ctx = test_context
      and defn = "\<lparr>td_name = ascii ''quit'', td_description = [], td_input_schema = PNone,
                       td_output_schema = PNone\<rparr>" and handler = exit_handler
      and e = "BaseExceptionOnly (ascii ''exit'')"]
  by (simp add: tools_test_registry tools_exit_registry add_handler_def fail_handler_def
      exit_handler_def py_add_def ascii_def)

section \<open>The resolver\<close>

lemma check_name_Inr: "check_name n = Inr m \<longleftrightarrow> m = n \<and> validate_agent_name n"
  by (auto simp: check_name_def)

lemma check_name_Inl:
  "check_name n = Inl e \<Longrightarrow> dns_code e = Some INVALID_NAME"
  by (auto simp: check_name_def split: if_splits)

lemma target_name_Inl: "target_name t = Inl e \<Longrightarrow> dns_code e = Some INVALID_NAME"
  by (auto simp: target_name_def check_name_def split: if_splits option.splits)

lemma target_name_valid: "target_name t = Inr n \<Longrightarrow> validate_agent_name n"
  by (auto simp: target_name_def check_name_def split: if_splits option.splits)

lemma target_name_invalid:
  "\<not> validate_agent_name t \<Longrightarrow> \<not> is_valid_agent_uri t \<Longrightarrow> \<exists>e. target_name t = Inl e"
  by (auto simp: target_name_def check_name_def is_valid_agent_uri_def)

lemma colon_not_name_char: "\<not> name_inner_char 58"
  by (simp add: name_inner_char_def name_edge_char_def)

lemma name_body_no_colon: "name_body w \<Longrightarrow> 58 \<notin> set w"
  using colon_not_name_char by (auto simp: name_body_def list_all_iff)

lemma valid_name_no_scheme:
  assumes "validate_agent_name n"
  shows "\<not> startswith n (ascii ''agent://'')"
proof
  assume "startswith n (ascii ''agent://'')"
  then have "take 8 n = ascii ''agent://''" by (simp add: startswith_agent)
  then have "n = ascii ''agent://'' @ drop 8 n" by (metis append_take_drop_id)
  then have "lower n = ascii ''agent://'' @ lower (drop 8 n)"
    by (metis lower_append lower_scheme)
  then obtain r where r: "lower n = ascii ''agent:'' @ ascii ''//'' @ r"
    by (simp add: ascii_def)
  have in1: "58 \<in> set (lower n)" unfolding r by (simp add: ascii_def)
  have "butlast (lower n) = ascii ''agent:'' @ butlast (ascii ''//'' @ r)"
    unfolding r by (simp add: ascii_def butlast_append)
  then have in2: "58 \<in> set (butlast (lower n))" by (simp add: ascii_def)
  from assms have "name_body (lower n) \<or> name_body (butlast (lower n))"
    by (auto simp: validate_agent_name_iff)
  with in1 in2 name_body_no_colon show False by blast
qed

lemma target_name_bare: "validate_agent_name n \<Longrightarrow> target_name n = Inr n"
  using valid_name_no_scheme[of n] by (simp add: target_name_def check_name_def)

lemma resolve_fresh_requests:
  "requests (snd (resolve_fresh w st n)) = requests st @ [lookup_url (resolver st) n]"
  by (simp add: resolve_fresh_def Let_def split: sum.splits)

lemma resolve_fresh_Inl:
  "fst (resolve_fresh w st n) = Inl e \<Longrightarrow> resolver (snd (resolve_fresh w st n)) = resolver st"
  by (auto simp: resolve_fresh_def Let_def split: sum.splits)

lemma resolve_fresh_Inr:
  "resolve_fresh w st n = (Inr ag, st1) \<Longrightarrow>
     \<exists>ttl. number (ra_ttl ag) = Some ttl \<and>
       st1 = st\<lparr>requests := requests st @ [lookup_url (resolver st) n],
               resolver := (resolver st)\<lparr>cache :=
                 AList.update n \<lparr>agent = ag, expires_at = at_store w + ttl\<rparr> (cache (resolver st))\<rparr>\<rparr>"
  by (auto simp: resolve_fresh_def Let_def float_add_def split: sum.splits option.splits)

lemma resolve_hit:
  "target_name t = Inr n \<Longrightarrow> map_of (cache (resolver st)) n = Some c \<Longrightarrow> at_check w < expires_at c
     \<Longrightarrow> resolve w st t = (Inr (agent c), st)"
  by (simp add: resolve_def)

lemma resolve_expired:
  "target_name t = Inr n \<Longrightarrow> map_of (cache (resolver st)) n = Some c \<Longrightarrow> expires_at c \<le> at_check w
     \<Longrightarrow> resolve w st t = resolve_fresh w st n"
  by (simp add: resolve_def)

lemma resolve_miss:
  "target_name t = Inr n \<Longrightarrow> map_of (cache (resolver st)) n = None
     \<Longrightarrow> resolve w st t = resolve_fresh w st n"
  by (simp add: resolve_def)

lemma resolve_cases:
  "target_name t = Inr n \<Longrightarrow>
     (\<exists>c. map_of (cache (resolver st)) n = Some c \<and> at_check w < expires_at c \<and>
          resolve w st t = (Inr (agent c), st))
     \<or> resolve w st t = resolve_fresh w st n"
  by (auto simp: resolve_def split: option.splits)

lemma resolve_invalid_name:
  assumes "\<not> validate_agent_name target" "\<not> is_valid_agent_uri target"
  shows "failure_code (fst (resolve w st target)) = Some INVALID_NAME \<and>
      snd (resolve w st target) = st"
proof -
  obtain e where e: "target_name target = Inl e"
    using target_name_invalid assms by blast
  then show ?thesis
    using target_name_Inl[OF e] by (simp add: resolve_def failure_code_def)
qed

lemma resolve_failed_cache:
  assumes a: "fst (resolve w st target) = Inl e"
  shows "cache (resolver (snd (resolve w st target))) = cache (resolver st)"
proof (cases "target_name target")
  case (Inl x)
  then show ?thesis by (simp add: resolve_def)
next
  case (Inr n)
  from resolve_cases[OF Inr, of st w] show ?thesis
  proof
    assume "\<exists>c. map_of (cache (resolver st)) n = Some c \<and> at_check w < expires_at c \<and>
          resolve w st target = (Inr (agent c), st)"
    with a show ?thesis by auto
  next
    assume eq: "resolve w st target = resolve_fresh w st n"
    with a have "fst (resolve_fresh w st n) = Inl e" by simp
    from resolve_fresh_Inl[OF this] show ?thesis by (simp add: eq)
  qed
qed

text \<open>
  C3: for every target that is neither a valid bare agent name nor a valid agent:// URI
  (for example agent://bad_name!), \<open>resolve\<close> fails with the code \<open>INVALID_NAME\<close> and leaves
  the whole state as it was: no request is issued and the cache is unchanged.  And every
  resolution that fails, whatever the failure, leaves the cache as it was.
\<close>

theorem resolve_invalid:
  "(\<not> validate_agent_name target \<and> \<not> is_valid_agent_uri target \<longrightarrow>
      failure_code (fst (resolve w st target)) = Some INVALID_NAME \<and>
      snd (resolve w st target) = st) \<and>
   (fst (resolve w st target) = Inl e \<longrightarrow>
      cache (resolver (snd (resolve w st target))) = cache (resolver st))"
proof (intro conjI)
  show "\<not> validate_agent_name target \<and> \<not> is_valid_agent_uri target \<longrightarrow>
      failure_code (fst (resolve w st target)) = Some INVALID_NAME \<and>
      snd (resolve w st target) = st"
    using resolve_invalid_name[of target w st] by blast
  show "fst (resolve w st target) = Inl e \<longrightarrow>
      cache (resolver (snd (resolve w st target))) = cache (resolver st)"
    using resolve_failed_cache[of w st target e] by blast
qed

lemma resolve_expired_stores:
  assumes tn: "target_name target = Inr name"
    and c: "map_of (cache (resolver st)) name = Some c" "expires_at c \<le> at_check w"
    and ok: "fst (resolve w st target) = Inr ag"
  shows "\<exists>ttl. number (ra_ttl ag) = Some ttl \<and>
         map_of (cache (resolver (snd (resolve w st target)))) name =
           Some \<lparr>agent = ag, expires_at = at_store w + ttl\<rparr>"
proof -
  have eq: "resolve w st target = resolve_fresh w st name"
    using tn c by (simp add: resolve_expired)
  with ok have "resolve_fresh w st name = (Inr ag, snd (resolve_fresh w st name))"
    by (metis prod.collapse)
  from resolve_fresh_Inr[OF this] obtain ttl where
    "number (ra_ttl ag) = Some ttl"
    "snd (resolve_fresh w st name) = st\<lparr>requests := requests st @ [lookup_url (resolver st) name],
               resolver := (resolver st)\<lparr>cache :=
                 AList.update name \<lparr>agent = ag, expires_at = at_store w + ttl\<rparr> (cache (resolver st))\<rparr>\<rparr>"
    by blast
  then show ?thesis
    unfolding eq by (auto simp: update_conv')
qed

lemma resolve_twice:
  assumes tn: "target_name target = Inr name" and r: "resolve w st target = (Inr ag, st1)"
  shows "length (requests st1) \<le> length (requests st) + 1 \<and>
      (\<exists>c1. map_of (cache (resolver st1)) name = Some c1 \<and> agent c1 = ag \<and>
         (at_check w2 < expires_at c1 \<longrightarrow> resolve w2 st1 target = (Inr ag, st1)))"
  using resolve_cases[OF tn, of st w]
proof
  assume "\<exists>c. map_of (cache (resolver st)) name = Some c \<and> at_check w < expires_at c \<and>
        resolve w st target = (Inr (agent c), st)"
  with r tn show ?thesis by (auto simp: resolve_hit)
next
  assume "resolve w st target = resolve_fresh w st name"
  with r have "resolve_fresh w st name = (Inr ag, st1)" by simp
  from resolve_fresh_Inr[OF this] obtain ttl where
    st1: "st1 = st\<lparr>requests := requests st @ [lookup_url (resolver st) name],
             resolver := (resolver st)\<lparr>cache :=
               AList.update name \<lparr>agent = ag, expires_at = at_store w + ttl\<rparr> (cache (resolver st))\<rparr>\<rparr>"
    by blast
  have m: "map_of (cache (resolver st1)) name = Some \<lparr>agent = ag, expires_at = at_store w + ttl\<rparr>"
    unfolding st1 by (simp add: update_conv')
  have len: "length (requests st1) \<le> length (requests st) + 1" unfolding st1 by simp
  have again: "at_check w2 < expires_at \<lparr>agent = ag, expires_at = at_store w + ttl\<rparr>
      \<longrightarrow> resolve w2 st1 target = (Inr ag, st1)"
    using resolve_hit[OF tn m, of w2] by simp
  from m len again show ?thesis by auto
qed

text \<open>
  C2: let \<open>name\<close> be the name that \<open>resolve\<close> keys the cache by for an accepted target;
  for a valid bare name that is the name itself.
  If the cache holds an entry for it whose \<open>expires_at\<close> is still in the future, \<open>resolve\<close>
  returns the cached endpoint and leaves the state as it was, so no request is issued.
  If the entry has expired, \<open>resolve\<close> issues one request, and when it succeeds the entry
  is overwritten with \<open>expires_at\<close> equal to the time at the store plus the endpoint's
  ttl.  After a successful resolution at most one request has been added, and a second
  resolution of the same target before the entry's \<open>expires_at\<close> returns the same
  endpoint and adds none.
\<close>

theorem resolve_cache:
  "(validate_agent_name target \<longrightarrow> target_name target = Inr target) \<and>
   (target_name target = Inr name \<and> map_of (cache (resolver st)) name = Some c \<and>
    at_check w < expires_at c \<longrightarrow>
      resolve w st target = (Inr (agent c), st)) \<and>
   (target_name target = Inr name \<and> map_of (cache (resolver st)) name = Some c \<and>
    expires_at c \<le> at_check w \<longrightarrow>
      requests (snd (resolve w st target)) = requests st @ [lookup_url (resolver st) name]) \<and>
   (target_name target = Inr name \<and> map_of (cache (resolver st)) name = Some c \<and>
    expires_at c \<le> at_check w \<and> fst (resolve w st target) = Inr ag \<longrightarrow>
      (\<exists>ttl. number (ra_ttl ag) = Some ttl \<and>
         map_of (cache (resolver (snd (resolve w st target)))) name =
           Some \<lparr>agent = ag, expires_at = at_store w + ttl\<rparr>)) \<and>
   (target_name target = Inr name \<and> resolve w st target = (Inr ag, st1) \<longrightarrow>
      length (requests st1) \<le> length (requests st) + 1 \<and>
      (\<exists>c1. map_of (cache (resolver st1)) name = Some c1 \<and> agent c1 = ag \<and>
         (at_check w2 < expires_at c1 \<longrightarrow> resolve w2 st1 target = (Inr ag, st1))))"
proof (intro conjI)
  show "validate_agent_name target \<longrightarrow> target_name target = Inr target"
    using target_name_bare[of target] by blast
  show "target_name target = Inr name \<and> map_of (cache (resolver st)) name = Some c \<and>
    at_check w < expires_at c \<longrightarrow>
      resolve w st target = (Inr (agent c), st)"
    using resolve_hit[of target name st c w] by blast
  show "target_name target = Inr name \<and> map_of (cache (resolver st)) name = Some c \<and>
    expires_at c \<le> at_check w \<longrightarrow>
      requests (snd (resolve w st target)) = requests st @ [lookup_url (resolver st) name]"
    using resolve_expired[of target name st c w] resolve_fresh_requests[of w st name] by simp
  show "target_name target = Inr name \<and> map_of (cache (resolver st)) name = Some c \<and>
    expires_at c \<le> at_check w \<and> fst (resolve w st target) = Inr ag \<longrightarrow>
      (\<exists>ttl. number (ra_ttl ag) = Some ttl \<and>
         map_of (cache (resolver (snd (resolve w st target)))) name =
           Some \<lparr>agent = ag, expires_at = at_store w + ttl\<rparr>)"
    using resolve_expired_stores[of target name st c w ag] by blast
  show "target_name target = Inr name \<and> resolve w st target = (Inr ag, st1) \<longrightarrow>
      length (requests st1) \<le> length (requests st) + 1 \<and>
      (\<exists>c1. map_of (cache (resolver st1)) name = Some c1 \<and> agent c1 = ag \<and>
         (at_check w2 < expires_at c1 \<longrightarrow> resolve w2 st1 target = (Inr ag, st1)))"
    using resolve_twice[of target name w st ag st1 w2] by blast
qed

lemmas name_eval = validate_agent_name_def parse_agent_uri_def target_name_def check_name_def
  is_valid_agent_uri_def startswith_def endswith_def lower_def lower_cp_def match_anchored_def
  AGENT_NAME_RE_def name_edge_char_def name_inner_char_def ascii_def Let_def

lemma target_name_alice: "target_name (ascii ''alice'') = Inr (ascii ''alice'')"
  by (simp add: name_eval)

lemma target_name_ALICE: "target_name (ascii ''ALICE'') = Inr (ascii ''ALICE'')"
  by (simp add: name_eval)

lemma target_name_uri_ALICE: "target_name (ascii ''agent://ALICE'') = Inr (ascii ''alice'')"
  by (simp add: name_eval)

lemma bad_name_invalid:
  "\<not> validate_agent_name (ascii ''agent://bad_name!'')"
  "\<not> is_valid_agent_uri (ascii ''agent://bad_name!'')"
  by (simp_all add: name_eval)

lemma base_url_test: "base_url (resolver test_net) = ascii ''http://dns.test:3000''"
  by (simp add: test_net_def new_DNSResolver_def str_int_def digits.simps ascii_def)

lemma lookup_url_test:
  "lookup_url (resolver test_net) (ascii ''alice'') = ascii ''http://dns.test:3000/dns/lookup/alice''"
  by (simp add: lookup_url_def base_url_test) (simp add: ascii_def)

lemmas parse_eval = parse_response_def get_attr_def iterate_def dict_get_def known_keys_def
  float_add_def fetch_def try_body_def reply_ok_def

lemma parse_reply_ok:
  "parse_response r t name reply_ok = Inr ((alice_at t)\<lparr>ra_name := name\<rparr>)"
  by (simp add: parse_eval alice_at_def) (simp add: ascii_def)

lemma resolve_fresh_ok:
  "resolve_fresh (world_at t service_ok) st name =
     (Inr ((alice_at t)\<lparr>ra_name := name\<rparr>),
      st\<lparr>requests := requests st @ [lookup_url (resolver st) name],
         resolver := (resolver st)\<lparr>cache :=
           AList.update name \<lparr>agent = (alice_at t)\<lparr>ra_name := name\<rparr>, expires_at = t + 60\<rparr>
             (cache (resolver st))\<rparr>\<rparr>)"
  by (simp add: resolve_fresh_def Let_def world_at_def service_ok_def fetch_def try_body_def
      parse_reply_ok float_add_def alice_at_def)

lemma resolve_fresh_404:
  "resolve_fresh (world_at t service_404) st name =
     (Inl (DNSError NOT_FOUND (ascii ''Agent not found: '' @ name)),
      st\<lparr>requests := requests st @ [lookup_url (resolver st) name]\<rparr>)"
  by (simp add: resolve_fresh_def Let_def world_at_def service_404_def fetch_def try_body_def)

lemma resolve_fresh_array:
  "resolve_fresh (world_at t service_array) st name =
     (Inl (AttributeError (quoted (ascii ''list'') @ ascii '' object has no attribute ''
             @ quoted (ascii ''get''))),
      st\<lparr>requests := requests st @ [lookup_url (resolver st) name]\<rparr>)"
  by (simp add: resolve_fresh_def Let_def world_at_def service_array_def fetch_def try_body_def
      parse_response_def get_attr_def)

lemma resolve_fresh_not_json:
  "resolve_fresh (world_at t service_not_json) st name =
     (Inl (DNSError SERVER_ERROR (ascii ''Unexpected error: '' @ ascii ''Expecting value'')),
      st\<lparr>requests := requests st @ [lookup_url (resolver st) name]\<rparr>)"
  by (simp add: resolve_fresh_def Let_def world_at_def service_not_json_def fetch_def try_body_def)

lemma net_cached_fields:
  "requests net_cached = [ascii ''http://dns.test:3000/dns/lookup/alice'']"
  "cache (resolver net_cached) = [(ascii ''alice'', \<lparr>agent = alice_at 100, expires_at = 160\<rparr>)]"
  "lookup_url (resolver net_cached) n = ascii ''http://dns.test:3000/dns/lookup/'' @ n"
  "lookup_url (resolver test_net) n = ascii ''http://dns.test:3000/dns/lookup/'' @ n"
  "requests test_net = []"
  "cache (resolver test_net) = []"
  by (simp_all add: net_cached_def test_net_def new_DNSResolver_def lookup_url_def str_int_def
      digits.simps ascii_def)

lemma at_check_world_at: "at_check (world_at t s) = t" "at_store (world_at t s) = t"
  by (simp_all add: world_at_def)

lemma url_alice:
  "ascii ''http://dns.test:3000/dns/lookup/'' @ ascii ''alice'' = ascii ''http://dns.test:3000/dns/lookup/alice''"
  "ascii ''http://dns.test:3000/dns/lookup/'' @ ascii ''ALICE'' = ascii ''http://dns.test:3000/dns/lookup/ALICE''"
  by (simp_all add: ascii_def)

lemma resolve_alice_first:
  "resolve (world_at 100 service_ok) test_net (ascii ''alice'') = (Inr (alice_at 100), net_cached)"
  apply (simp add: resolve_def target_name_alice net_cached_fields resolve_fresh_ok)
  apply (simp add: net_cached_def alice_at_def test_net_def url_alice)
  done

lemma resolve_alice_expired:
  "fst (resolve (world_at 200 service_ok) net_cached (ascii ''alice'')) = Inr (alice_at 200)"
  by (simp add: resolve_def target_name_alice net_cached_fields resolve_fresh_ok at_check_world_at
      alice_at_def)

lemma resolve_alice_404:
  "fst (resolve (world_at 200 service_404) net_cached (ascii ''alice'')) =
     Inl (DNSError NOT_FOUND (ascii ''Agent not found: alice''))"
  by (simp add: resolve_def target_name_alice net_cached_fields resolve_fresh_404 at_check_world_at)
     (simp add: ascii_def)

theorem resolve_cache_witness:
  "validate_agent_name (ascii ''alice'') \<and>
   resolve (world_at 120 service_404) net_cached (ascii ''alice'') = (Inr (alice_at 100), net_cached) \<and>
   requests (snd (resolve (world_at 200 service_ok) net_cached (ascii ''alice''))) =
     [ascii ''http://dns.test:3000/dns/lookup/alice'', ascii ''http://dns.test:3000/dns/lookup/alice''] \<and>
   map_of (cache (resolver (snd (resolve (world_at 200 service_ok) net_cached (ascii ''alice'')))))
       (ascii ''alice'') = Some \<lparr>agent = alice_at 200, expires_at = 260\<rparr> \<and>
   resolve (world_at 100 service_ok) test_net (ascii ''alice'') = (Inr (alice_at 100), net_cached) \<and>
   length (requests net_cached) \<le> length (requests test_net) + 1 \<and>
   resolve (world_at 159 service_404) net_cached (ascii ''alice'') = (Inr (alice_at 100), net_cached)"
proof -
  have hit: "resolve (world_at 120 service_404) net_cached (ascii ''alice'') = (Inr (alice_at 100), net_cached)"
    using resolve_cache [where target = "ascii ''alice''" and name = "ascii ''alice''"
      and st = net_cached and c = "\<lparr>agent = alice_at 100, expires_at = 160\<rparr>"
      and w = "world_at 120 service_404" and ag = "alice_at 100" and ?st1.0 = net_cached
      and ?w2.0 = "world_at 159 service_404"]
    by (simp add: target_name_alice net_cached_fields at_check_world_at)
  have expired:
    "requests (snd (resolve (world_at 200 service_ok) net_cached (ascii ''alice''))) =
       [ascii ''http://dns.test:3000/dns/lookup/alice'', ascii ''http://dns.test:3000/dns/lookup/alice''] \<and>
     map_of (cache (resolver (snd (resolve (world_at 200 service_ok) net_cached (ascii ''alice'')))))
       (ascii ''alice'') = Some \<lparr>agent = alice_at 200, expires_at = 260\<rparr>"
    using resolve_cache [where target = "ascii ''alice''" and name = "ascii ''alice''"
      and st = net_cached and c = "\<lparr>agent = alice_at 100, expires_at = 160\<rparr>"
      and w = "world_at 200 service_ok" and ag = "alice_at 200" and ?st1.0 = net_cached
      and ?w2.0 = "world_at 159 service_404"]
    by (simp add: target_name_alice net_cached_fields at_check_world_at resolve_alice_expired
        url_alice alice_at_def)
  have twice:
    "length (requests net_cached) \<le> length (requests test_net) + 1 \<and>
     resolve (world_at 159 service_404) net_cached (ascii ''alice'') = (Inr (alice_at 100), net_cached)"
    using resolve_cache [where target = "ascii ''alice''" and name = "ascii ''alice''"
      and st = test_net and c = "\<lparr>agent = alice_at 100, expires_at = 160\<rparr>"
      and w = "world_at 100 service_ok" and ag = "alice_at 100" and ?st1.0 = net_cached
      and ?w2.0 = "world_at 159 service_404"]
    by (simp add: target_name_alice net_cached_fields at_check_world_at resolve_alice_first)
  have valid: "validate_agent_name (ascii ''alice'')" by (simp add: name_eval)
  from valid hit expired twice resolve_alice_first show ?thesis by simp
qed

theorem resolve_invalid_witness:
  "\<not> validate_agent_name (ascii ''agent://bad_name!'') \<and>
   \<not> is_valid_agent_uri (ascii ''agent://bad_name!'') \<and>
   failure_code (fst (resolve (world_at 100 service_ok) net_cached (ascii ''agent://bad_name!'')))
     = Some INVALID_NAME \<and>
   snd (resolve (world_at 100 service_ok) net_cached (ascii ''agent://bad_name!'')) = net_cached \<and>
   fst (resolve (world_at 200 service_404) net_cached (ascii ''alice'')) =
     Inl (DNSError NOT_FOUND (ascii ''Agent not found: alice'')) \<and>
   cache (resolver (snd (resolve (world_at 200 service_404) net_cached (ascii ''alice'')))) =
     [(ascii ''alice'', \<lparr>agent = alice_at 100, expires_at = 160\<rparr>)]"
  using
    resolve_invalid [where target = "ascii ''agent://bad_name!''" and w = "world_at 100 service_ok"
      and st = net_cached]
    resolve_invalid [where target = "ascii ''alice''" and w = "world_at 200 service_404"
      and st = net_cached and e = "DNSError NOT_FOUND (ascii ''Agent not found: alice'')"]
  by (simp add: bad_name_invalid resolve_alice_404 net_cached_fields)

text \<open>
  C4 at a failing input: the bare name ALICE is accepted and used as it is, while the URI
  agent://ALICE is lowered to alice.  With an unexpired cache entry for alice, resolving
  alice is answered from the cache, and resolving ALICE issues a request for
  \<open>/dns/lookup/ALICE\<close> and adds a second cache entry under the key ALICE.
\<close>

theorem resolve_bare_name_not_lowered:
  "validate_agent_name (ascii ''ALICE'') \<and>
   target_name (ascii ''ALICE'') = Inr (ascii ''ALICE'') \<and>
   target_name (ascii ''agent://ALICE'') = Inr (ascii ''alice'') \<and>
   resolve (world_at 120 service_404) net_cached (ascii ''alice'') = (Inr (alice_at 100), net_cached) \<and>
   fst (resolve (world_at 120 service_404) net_cached (ascii ''ALICE'')) =
     Inl (DNSError NOT_FOUND (ascii ''Agent not found: ALICE'')) \<and>
   requests (snd (resolve (world_at 120 service_ok) net_cached (ascii ''ALICE''))) =
     [ascii ''http://dns.test:3000/dns/lookup/alice'', ascii ''http://dns.test:3000/dns/lookup/ALICE''] \<and>
   map fst (cache (resolver (snd (resolve (world_at 120 service_ok) net_cached (ascii ''ALICE''))))) =
     [ascii ''alice'', ascii ''ALICE'']"
  apply (simp add: resolve_def target_name_alice target_name_ALICE target_name_uri_ALICE
      net_cached_fields at_check_world_at resolve_fresh_ok resolve_fresh_404)
  apply (simp add: name_eval)
  done

section \<open>The failures of the resolver\<close>

lemma fetch_typed:
  assumes "fetch got name = Inl e" "is_Exception e"
  shows "dns_code e \<noteq> None"
proof (cases "try_body got name")
  case (Inl x)
  with assms(1) have e: "e = except_clauses x name" by (simp add: fetch_def)
  with assms(2) show ?thesis by (cases x) auto
next
  case (Inr data)
  with assms(1) show ?thesis by (simp add: fetch_def)
qed

lemma resolve_fresh_fetch_failed:
  assumes "isl (fetch (http_get w (lookup_url (resolver st) n)) n)"
  shows "\<exists>e. fst (resolve_fresh w st n) = Inl e \<and>
              fetch (http_get w (lookup_url (resolver st) n)) n = Inl e"
  using assms by (auto simp: resolve_fresh_def Let_def split: sum.splits)

lemma resolve_typed:
  assumes f: "fst (resolve w st target) = Inl e" and ex: "is_Exception e"
    and early: "isl (target_name target) \<or>
       target_name target = Inr name \<and> isl (fetch (http_get w (lookup_url (resolver st) name)) name)"
  shows "dns_code e \<noteq> None"
proof (cases "target_name target")
  case (Inl x)
  with f have "e = x" by (simp add: resolve_def)
  with target_name_Inl[OF Inl] show ?thesis by simp
next
  case (Inr n)
  with early have n: "n = name" and fl: "isl (fetch (http_get w (lookup_url (resolver st) name)) name)"
    by auto
  from resolve_cases[OF Inr, of st w] show ?thesis
  proof
    assume "\<exists>c. map_of (cache (resolver st)) n = Some c \<and> at_check w < expires_at c \<and>
          resolve w st target = (Inr (agent c), st)"
    with f show ?thesis by auto
  next
    assume "resolve w st target = resolve_fresh w st n"
    with f n have "fst (resolve_fresh w st name) = Inl e" by simp
    with resolve_fresh_fetch_failed[OF fl]
    have "fetch (http_get w (lookup_url (resolver st) name)) name = Inl e" by auto
    from fetch_typed[OF this ex] show ?thesis .
  qed
qed

lemma resolve_no_hit:
  "target_name t = Inr n \<Longrightarrow> \<not> cache_hit w st n \<Longrightarrow> resolve w st t = resolve_fresh w st n"
  by (auto simp: resolve_def cache_hit_def split: option.splits)

lemma resolve_fresh_raised:
  "try_body (http_get w (lookup_url (resolver st) n)) n = Inl x \<Longrightarrow>
     fst (resolve_fresh w st n) = Inl (except_clauses x n)"
  by (simp add: resolve_fresh_def Let_def fetch_def)

lemma resolve_raised:
  assumes "target_name target = Inr name" "\<not> cache_hit w st name"
    and "try_body (http_get w (lookup_url (resolver st) name)) name = Inl x"
  shows "fst (resolve w st target) = Inl (except_clauses x name)"
  using assms by (simp add: resolve_no_hit resolve_fresh_raised)

lemma isl_fetch: "isl (fetch got name) \<longleftrightarrow> isl (try_body got name)"
  by (simp add: fetch_def split: sum.splits)

text \<open>
  C10 (amended): a target that fails the name check ends \<open>resolve\<close> with a \<open>DNSError\<close>
  of code \<open>INVALID_NAME\<close> and the state as it was.  When \<open>resolve\<close> issues the request,
  status 404 raises \<open>NOT_FOUND\<close> and any other status than 200 \<open>SERVER_ERROR\<close> inside the
  \<open>try\<close> statement, and an exception raised inside it, by the client, by these two
  checks or by \<open>resp.json()\<close>, ends \<open>resolve\<close> as follows: a timeout of the client as
  \<open>TIMEOUT\<close>, a connection failure as \<open>NETWORK_ERROR\<close>, a \<open>DNSError\<close> unchanged, any other
  exception that derives from \<open>Exception\<close>, so also that of a body which is not JSON, as
  \<open>SERVER_ERROR\<close> with the message \<open>Unexpected error:\<close> and its text, and an exception
  that does not derive from \<open>Exception\<close> unchanged.  So every failure that derives from
  \<open>Exception\<close> and arises before a reply has been parsed is a \<open>DNSError\<close> with one of the
  five codes.
\<close>

theorem resolve_typed_failures:
  "(target_name target = Inl e \<longrightarrow>
      resolve w st target = (Inl e, st) \<and> dns_code e = Some INVALID_NAME) \<and>
   (target_name target = Inr name \<and> \<not> cache_hit w st name \<and>
    try_body (http_get w (lookup_url (resolver st) name)) name = Inl x \<longrightarrow>
      (x = TimeoutException m \<longrightarrow>
         fst (resolve w st target) =
           Inl (DNSError TIMEOUT (ascii ''DNS lookup timed out for '' @ name))) \<and>
      (x = ConnectError m \<longrightarrow>
         fst (resolve w st target) =
           Inl (DNSError NETWORK_ERROR (ascii ''Cannot reach DNS server: '' @ m))) \<and>
      (x = DNSError c m \<longrightarrow> fst (resolve w st target) = Inl (DNSError c m)) \<and>
      (x = TypeError m \<or> x = AttributeError m \<or> x = OtherException m \<longrightarrow>
         fst (resolve w st target) =
           Inl (DNSError SERVER_ERROR (ascii ''Unexpected error: '' @ m))) \<and>
      (x = BaseExceptionOnly m \<longrightarrow> fst (resolve w st target) = Inl (BaseExceptionOnly m))) \<and>
   try_body (Inl x) name = Inl x \<and>
   (status_code resp = 404 \<longrightarrow>
      try_body (Inr resp) name = Inl (DNSError NOT_FOUND (ascii ''Agent not found: '' @ name))) \<and>
   (status_code resp \<noteq> 404 \<and> status_code resp \<noteq> 200 \<longrightarrow>
      try_body (Inr resp) name =
        Inl (DNSError SERVER_ERROR (ascii ''DNS server error: '' @ str_int (status_code resp)))) \<and>
   (status_code resp = 200 \<longrightarrow> try_body (Inr resp) name = json resp) \<and>
   (fst (resolve w st target) = Inl e \<and> is_Exception e \<and>
    (isl (target_name target) \<or>
     target_name target = Inr name \<and>
     isl (try_body (http_get w (lookup_url (resolver st) name)) name))
      \<longrightarrow> dns_code e \<noteq> None)"
proof (intro conjI)
  show "target_name target = Inl e \<longrightarrow>
      resolve w st target = (Inl e, st) \<and> dns_code e = Some INVALID_NAME"
    using target_name_Inl[of target e] by (simp add: resolve_def)
  show "target_name target = Inr name \<and> \<not> cache_hit w st name \<and>
    try_body (http_get w (lookup_url (resolver st) name)) name = Inl x \<longrightarrow>
      (x = TimeoutException m \<longrightarrow>
         fst (resolve w st target) =
           Inl (DNSError TIMEOUT (ascii ''DNS lookup timed out for '' @ name))) \<and>
      (x = ConnectError m \<longrightarrow>
         fst (resolve w st target) =
           Inl (DNSError NETWORK_ERROR (ascii ''Cannot reach DNS server: '' @ m))) \<and>
      (x = DNSError c m \<longrightarrow> fst (resolve w st target) = Inl (DNSError c m)) \<and>
      (x = TypeError m \<or> x = AttributeError m \<or> x = OtherException m \<longrightarrow>
         fst (resolve w st target) =
           Inl (DNSError SERVER_ERROR (ascii ''Unexpected error: '' @ m))) \<and>
      (x = BaseExceptionOnly m \<longrightarrow> fst (resolve w st target) = Inl (BaseExceptionOnly m))"
    using resolve_raised[of target name w st x] by auto
  show "try_body (Inl x) name = Inl x" by (simp add: try_body_def)
  show "status_code resp = 404 \<longrightarrow>
      try_body (Inr resp) name = Inl (DNSError NOT_FOUND (ascii ''Agent not found: '' @ name))"
    by (simp add: try_body_def)
  show "status_code resp \<noteq> 404 \<and> status_code resp \<noteq> 200 \<longrightarrow>
      try_body (Inr resp) name =
        Inl (DNSError SERVER_ERROR (ascii ''DNS server error: '' @ str_int (status_code resp)))"
    by (simp add: try_body_def)
  show "status_code resp = 200 \<longrightarrow> try_body (Inr resp) name = json resp"
    by (simp add: try_body_def)
  show "fst (resolve w st target) = Inl e \<and> is_Exception e \<and>
    (isl (target_name target) \<or>
     target_name target = Inr name \<and>
     isl (try_body (http_get w (lookup_url (resolver st) name)) name))
      \<longrightarrow> dns_code e \<noteq> None"
    using resolve_typed[of w st target e name] by (simp add: isl_fetch)
qed

lemma resolve_fresh_cancelled:
  "resolve_fresh (world_at t service_cancelled) st name =
     (Inl (BaseExceptionOnly (ascii ''cancelled'')),
      st\<lparr>requests := requests st @ [lookup_url (resolver st) name]\<rparr>)"
  by (simp add: resolve_fresh_def Let_def world_at_def service_cancelled_def fetch_def try_body_def)

text \<open>
  C10, as stated, fails.  When the request is cancelled, the \<open>CancelledError\<close>, which does
  not derive from \<open>Exception\<close>, leaves \<open>resolve\<close> as it is.  And when the service answers
  with status 200 and the JSON array \<open>[]\<close> as body, \<open>resolve\<close> ends with an
  \<open>AttributeError\<close>, since the reply is taken apart after the \<open>try\<close> statement.  Neither
  is a \<open>DNSError\<close>.
\<close>

theorem resolve_untyped_failure:
  "fst (resolve (world_at 100 service_array) test_net (ascii ''alice'')) =
     Inl (AttributeError (quoted (ascii ''list'') @ ascii '' object has no attribute ''
            @ quoted (ascii ''get''))) \<and>
   failure_code (fst (resolve (world_at 100 service_array) test_net (ascii ''alice''))) = None \<and>
   fst (resolve (world_at 100 service_cancelled) test_net (ascii ''alice'')) =
     Inl (BaseExceptionOnly (ascii ''cancelled'')) \<and>
   failure_code (fst (resolve (world_at 100 service_cancelled) test_net (ascii ''alice''))) = None"
  by (simp add: resolve_def target_name_alice net_cached_fields resolve_fresh_array
      resolve_fresh_cancelled failure_code_def)

lemma resolve_alice_not_json:
  "fst (resolve (world_at 100 service_not_json) test_net (ascii ''alice'')) =
     Inl (DNSError SERVER_ERROR (ascii ''Unexpected error: '' @ ascii ''Expecting value''))"
  by (simp add: resolve_def target_name_alice net_cached_fields resolve_fresh_not_json)

lemma http_get_world_at: "http_get (world_at t s) = s"
  by (simp add: world_at_def)

lemma target_name_bad:
  "target_name (ascii ''agent://bad_name!'') =
     Inl (DNSError INVALID_NAME (ascii ''Invalid URI: '' @ ascii ''agent://bad_name!''))"
  by (simp add: name_eval)

lemma no_hit_test_net: "\<not> cache_hit w test_net n"
  by (simp add: cache_hit_def net_cached_fields)

lemma str_int_503: "str_int 503 = ascii ''503''"
  by (simp add: str_int_def digits.simps ascii_def)

lemmas try_eval = target_name_alice no_hit_test_net http_get_world_at try_body_def

theorem resolve_typed_failures_witness:
  "resolve (world_at 100 service_ok) net_cached (ascii ''agent://bad_name!'') =
     (Inl (DNSError INVALID_NAME (ascii ''Invalid URI: '' @ ascii ''agent://bad_name!'')), net_cached) \<and>
   fst (resolve (world_at 100 service_timeout) test_net (ascii ''alice'')) =
     Inl (DNSError TIMEOUT (ascii ''DNS lookup timed out for '' @ ascii ''alice'')) \<and>
   fst (resolve (world_at 100 service_refused) test_net (ascii ''alice'')) =
     Inl (DNSError NETWORK_ERROR (ascii ''Cannot reach DNS server: ''
            @ ascii ''All connection attempts failed'')) \<and>
   fst (resolve (world_at 100 service_404) test_net (ascii ''alice'')) =
     Inl (DNSError NOT_FOUND (ascii ''Agent not found: '' @ ascii ''alice'')) \<and>
   fst (resolve (world_at 100 service_503) test_net (ascii ''alice'')) =
     Inl (DNSError SERVER_ERROR (ascii ''DNS server error: '' @ ascii ''503'')) \<and>
   fst (resolve (world_at 100 service_not_json) test_net (ascii ''alice'')) =
     Inl (DNSError SERVER_ERROR (ascii ''Unexpected error: '' @ ascii ''Expecting value'')) \<and>
   fst (resolve (world_at 100 service_cancelled) test_net (ascii ''alice'')) =
     Inl (BaseExceptionOnly (ascii ''cancelled'')) \<and>
   dns_code (DNSError SERVER_ERROR (ascii ''Unexpected error: '' @ ascii ''Expecting value''))
     \<noteq> None"
proof -
  have bad: "resolve (world_at 100 service_ok) net_cached (ascii ''agent://bad_name!'') =
     (Inl (DNSError INVALID_NAME (ascii ''Invalid URI: '' @ ascii ''agent://bad_name!'')), net_cached)"
    using resolve_typed_failures [where target = "ascii ''agent://bad_name!''"
      and name = "ascii ''alice''" and w = "world_at 100 service_ok" and st = net_cached
      and x = "OtherException []" and m = "[]" and c = NOT_FOUND
      and resp = "\<lparr>status_code = 200, json = Inr PNone\<rparr>"
      and e = "DNSError INVALID_NAME (ascii ''Invalid URI: '' @ ascii ''agent://bad_name!'')"]
    by (simp add: target_name_bad)
  have timeout: "fst (resolve (world_at 100 service_timeout) test_net (ascii ''alice'')) =
     Inl (DNSError TIMEOUT (ascii ''DNS lookup timed out for '' @ ascii ''alice''))"
    using resolve_typed_failures [where target = "ascii ''alice''" and name = "ascii ''alice''"
      and w = "world_at 100 service_timeout" and st = test_net and x = "TimeoutException (ascii ''timed out'')" and m = "ascii ''timed out''" and c = NOT_FOUND
      and resp = "\<lparr>status_code = 200, json = Inr PNone\<rparr>" and e = "DNSError SERVER_ERROR []"]
    by (simp add: try_eval service_timeout_def)
  have refused: "fst (resolve (world_at 100 service_refused) test_net (ascii ''alice'')) =
     Inl (DNSError NETWORK_ERROR (ascii ''Cannot reach DNS server: ''
            @ ascii ''All connection attempts failed''))"
    using resolve_typed_failures [where target = "ascii ''alice''" and name = "ascii ''alice''"
      and w = "world_at 100 service_refused" and st = test_net and x = "ConnectError (ascii ''All connection attempts failed'')" and m = "ascii ''All connection attempts failed''" and c = NOT_FOUND
      and resp = "\<lparr>status_code = 200, json = Inr PNone\<rparr>" and e = "DNSError SERVER_ERROR []"]
    by (simp add: try_eval service_refused_def)
  have missing: "fst (resolve (world_at 100 service_404) test_net (ascii ''alice'')) =
     Inl (DNSError NOT_FOUND (ascii ''Agent not found: '' @ ascii ''alice''))"
    using resolve_typed_failures [where target = "ascii ''alice''" and name = "ascii ''alice''"
      and w = "world_at 100 service_404" and st = test_net and x = "DNSError NOT_FOUND (ascii ''Agent not found: '' @ ascii ''alice'')" and m = "ascii ''Agent not found: '' @ ascii ''alice''" and c = NOT_FOUND
      and resp = "\<lparr>status_code = 404, json = Inr PNone\<rparr>" and e = "DNSError SERVER_ERROR []"]
    by (simp add: try_eval service_404_def)
  have down: "fst (resolve (world_at 100 service_503) test_net (ascii ''alice'')) =
     Inl (DNSError SERVER_ERROR (ascii ''DNS server error: '' @ ascii ''503''))"
    using resolve_typed_failures [where target = "ascii ''alice''" and name = "ascii ''alice''"
      and w = "world_at 100 service_503" and st = test_net and x = "DNSError SERVER_ERROR (ascii ''DNS server error: '' @ ascii ''503'')" and m = "ascii ''DNS server error: '' @ ascii ''503''" and c = SERVER_ERROR
      and resp = "\<lparr>status_code = 503, json = Inr PNone\<rparr>" and e = "DNSError SERVER_ERROR []"]
    by (simp add: try_eval service_503_def str_int_503)
  have garbled: "fst (resolve (world_at 100 service_not_json) test_net (ascii ''alice'')) =
     Inl (DNSError SERVER_ERROR (ascii ''Unexpected error: '' @ ascii ''Expecting value''))"
    using resolve_typed_failures [where target = "ascii ''alice''" and name = "ascii ''alice''"
      and w = "world_at 100 service_not_json" and st = test_net and x = "OtherException (ascii ''Expecting value'')" and m = "ascii ''Expecting value''" and c = NOT_FOUND
      and resp = "\<lparr>status_code = 200, json = Inl (OtherException (ascii ''Expecting value''))\<rparr>" and e = "DNSError SERVER_ERROR []"]
    by (simp add: try_eval service_not_json_def)
  have cancelled: "fst (resolve (world_at 100 service_cancelled) test_net (ascii ''alice'')) =
     Inl (BaseExceptionOnly (ascii ''cancelled''))"
    using resolve_typed_failures [where target = "ascii ''alice''" and name = "ascii ''alice''"
      and w = "world_at 100 service_cancelled" and st = test_net and x = "BaseExceptionOnly (ascii ''cancelled'')" and m = "ascii ''cancelled''" and c = NOT_FOUND
      and resp = "\<lparr>status_code = 200, json = Inr PNone\<rparr>" and e = "DNSError SERVER_ERROR []"]
    by (simp add: try_eval service_cancelled_def)
  have typed: "dns_code (DNSError SERVER_ERROR (ascii ''Unexpected error: '' @ ascii ''Expecting value''))
     \<noteq> None"
    using resolve_typed_failures [where target = "ascii ''alice''" and name = "ascii ''alice''"
      and w = "world_at 100 service_not_json" and st = test_net and x = "OtherException (ascii ''Expecting value'')" and m = "ascii ''Expecting value''" and c = NOT_FOUND
      and resp = "\<lparr>status_code = 200, json = Inl (OtherException (ascii ''Expecting value''))\<rparr>" and e = "DNSError SERVER_ERROR (ascii ''Unexpected error: '' @ ascii ''Expecting value'')"]
    by (simp add: try_eval service_not_json_def garbled)
  from bad timeout refused missing down garbled cancelled typed show ?thesis by simp
qed

section \<open>Sessions and shutdown\<close>

lemma close_all_Some:
  "h r = Some s \<Longrightarrow>
     close_all rs h r = Some (if r \<in> set rs then s\<lparr>s_state := CLOSED\<rparr> else s)"
proof (induction rs arbitrary: h s)
  case Nil
  then show ?case by simp
next
  case (Cons a rs)
  let ?h = "case h a of None \<Rightarrow> h | Some x \<Rightarrow> h(a \<mapsto> x\<lparr>s_state := CLOSED\<rparr>)"
  have step: "close_all (a # rs) h r = close_all rs ?h r" by simp
  show ?case
  proof (cases "a = r")
    case True
    with Cons.prems have "?h r = Some (s\<lparr>s_state := CLOSED\<rparr>)" by simp
    then have "close_all rs ?h r =
        Some (if r \<in> set rs then (s\<lparr>s_state := CLOSED\<rparr>)\<lparr>s_state := CLOSED\<rparr>
              else s\<lparr>s_state := CLOSED\<rparr>)"
      by (rule Cons.IH)
    with step True show ?thesis by simp
  next
    case False
    with Cons.prems have "?h r = Some s" by (simp split: option.splits)
    then have "close_all rs ?h r = Some (if r \<in> set rs then s\<lparr>s_state := CLOSED\<rparr> else s)"
      by (rule Cons.IH)
    with step False show ?thesis by simp
  qed
qed

lemma stop_closes:
  assumes "is_running a" "map_of (sessions a) sid = Some addr" "objects a addr = Some s"
  shows "objects (stop a) addr = Some (s\<lparr>s_state := CLOSED\<rparr>)"
proof -
  from assms(2) have "addr \<in> set (map snd (sessions a))"
    by (force dest: map_of_SomeD)
  with assms(1,3) show ?thesis
    by (simp add: stop_def close_all_Some)
qed

text \<open>
  C6: when the agent is running, \<open>stop\<close> empties the session store, marks the agent as
  stopped and leaves every session object that the store held in state \<open>CLOSED\<close>, its
  other fields unchanged, whatever state the session was in: the state is assigned, no
  transition is checked.  When the agent is not running, \<open>stop\<close> changes nothing.
\<close>

theorem stop_closes_all:
  "(is_running a \<longrightarrow>
      sessions (stop a) = [] \<and> \<not> is_running (stop a) \<and>
      (map_of (sessions a) sid = Some addr \<and> objects a addr = Some s \<longrightarrow>
         objects (stop a) addr = Some (s\<lparr>s_state := CLOSED\<rparr>))) \<and>
   (\<not> is_running a \<longrightarrow> stop a = a)"
  using stop_closes[of a sid addr s] by (simp add: stop_def)

lemma two_sessions_fields:
  "is_running two_sessions_agent"
  "sessions two_sessions_agent = [(ascii ''session-1'', 0), (ascii ''session-2'', 1)]"
  "objects two_sessions_agent 0 = Some session_alice"
  "objects two_sessions_agent (Suc 0) = Some (session_alice\<lparr>s_id := ascii ''session-2'', s_state := ERROR_STATE\<rparr>)"
  by (simp_all add: two_sessions_agent_def connected_agent_def)

theorem stop_closes_all_witness:
  "is_running two_sessions_agent \<and>
   sessions (stop two_sessions_agent) = [] \<and> \<not> is_running (stop two_sessions_agent) \<and>
   objects (stop two_sessions_agent) 0 = Some (session_alice\<lparr>s_state := CLOSED\<rparr>) \<and>
   objects (stop two_sessions_agent) 1 = Some (session_alice\<lparr>s_id := ascii ''session-2'', s_state := CLOSED\<rparr>) \<and>
   \<not> is_running test_agent \<and> stop test_agent = test_agent"
  using
    stop_closes_all [where a = two_sessions_agent and sid = "ascii ''session-1''" and addr = 0
      and s = session_alice]
    stop_closes_all [where a = two_sessions_agent and sid = "ascii ''session-2''" and addr = "Suc 0"
      and s = "session_alice\<lparr>s_id := ascii ''session-2'', s_state := ERROR_STATE\<rparr>"]
    stop_closes_all [where a = test_agent and sid = "ascii ''session-1''" and addr = 0
      and s = session_alice]
  by (simp add: two_sessions_fields test_agent_def) (simp add: ascii_def)

lemma connect_alice:
  "connect (world_at 100 service_ok) (ascii ''session-1'') 100 100 (start test_agent) (ascii ''alice'')
     = (Inr \<lparr>cr_success = True, cr_session = Some 0, cr_error = None\<rparr>, connected_agent)"
  by (simp add: connect_def start_def test_agent_def resolve_alice_first new_Session_def
      connected_agent_def session_alice_def alice_at_def fun_eq_iff)

text \<open>
  C5, as stated, fails: the session that \<open>connect\<close> creates and puts into the store is in
  state \<open>ACTIVE\<close>, not \<open>INITIATING\<close>.
\<close>

theorem connect_stores_ACTIVE:
  "sessions (snd (connect (world_at 100 service_ok) (ascii ''session-1'') 100 100 (start test_agent)
      (ascii ''alice''))) = [(ascii ''session-1'', 0)] \<and>
   map_option s_state (objects (snd (connect (world_at 100 service_ok) (ascii ''session-1'') 100 100
      (start test_agent) (ascii ''alice''))) 0) = Some ACTIVE \<and>
   map_option s_state (objects (snd (connect (world_at 100 service_ok) (ascii ''session-1'') 100 100
      (start test_agent) (ascii ''alice''))) 0) \<noteq> Some INITIATING"
  by (simp add: connect_alice connected_agent_def session_alice_def)

text \<open>
  C5 (amended): a \<open>Session\<close> constructed without a state is in state \<open>INITIATING\<close>; every
  session that \<open>connect\<close> puts into the store is created in state \<open>ACTIVE\<close>; and the
  code has no operation that checks a transition: \<open>stop\<close>, the one place where the state
  of a stored session changes, assigns \<open>CLOSED\<close> whatever the state was, without an
  error.
\<close>

theorem session_states:
  "s_state (new_Session sid loc rem None t1 t2) = INITIATING \<and>
   (connect w new_id t1 t2 a target = (Inr res, a') \<and> cr_success res \<longrightarrow>
      (\<exists>addr s. cr_session res = Some addr \<and> map_of (sessions a') new_id = Some addr \<and>
         objects a' addr = Some s \<and> s_state s = ACTIVE)) \<and>
   (is_running a \<and> map_of (sessions a) sid' = Some addr' \<and> objects a addr' = Some s' \<longrightarrow>
      objects (stop a) addr' = Some (s'\<lparr>s_state := CLOSED\<rparr>))"
proof (intro conjI)
  show "s_state (new_Session sid loc rem None t1 t2) = INITIATING"
    by (simp add: new_Session_def)
  show "connect w new_id t1 t2 a target = (Inr res, a') \<and> cr_success res \<longrightarrow>
      (\<exists>addr s. cr_session res = Some addr \<and> map_of (sessions a') new_id = Some addr \<and>
         objects a' addr = Some s \<and> s_state s = ACTIVE)"
    by (auto simp: connect_def new_Session_def Let_def update_conv'
        split: prod.splits sum.splits if_splits)
  show "is_running a \<and> map_of (sessions a) sid' = Some addr' \<and> objects a addr' = Some s' \<longrightarrow>
      objects (stop a) addr' = Some (s'\<lparr>s_state := CLOSED\<rparr>)"
    using stop_closes[of a sid' addr' s'] by blast
qed

theorem session_states_witness:
  "map_of (sessions connected_agent) (ascii ''session-1'') = Some 0 \<and>
   (\<exists>s. objects connected_agent 0 = Some s \<and> s_state s = ACTIVE) \<and>
   objects (stop connected_agent) 0 = Some (session_alice\<lparr>s_state := CLOSED\<rparr>)"
  using
    session_states [where w = "world_at 100 service_ok" and new_id = "ascii ''session-1''"
      and ?t1.0 = 100 and ?t2.0 = 100 and a = "start test_agent" and target = "ascii ''alice''"
      and res = "\<lparr>cr_success = True, cr_session = Some 0, cr_error = None\<rparr>"
      and a' = connected_agent and sid' = "ascii ''session-1''" and addr' = 0 and s' = session_alice]
    session_states [where w = "world_at 100 service_ok" and new_id = "ascii ''session-1''"
      and ?t1.0 = 100 and ?t2.0 = 100 and a = connected_agent and target = "ascii ''alice''"
      and res = "\<lparr>cr_success = True, cr_session = Some 0, cr_error = None\<rparr>"
      and a' = connected_agent and sid' = "ascii ''session-1''" and addr' = 0 and s' = session_alice]
  by (simp add: connect_alice) (simp add: connected_agent_def)

end
